theory Spec2Isabelle
  imports Main
begin

section \<open>Values exchanged with the client\<close>

text \<open>
  A JavaScript number as the routes see it: the result of \<open>parseInt\<close> on a path or query
  parameter is either \<open>NaN\<close> (no leading digits) or an integer. Identifiers held in stored
  records are integers.
\<close>

datatype number = NaN | Number int

text \<open>JavaScript truthiness of a number: \<open>NaN\<close> and \<open>0\<close> are falsy.\<close>

fun truthy :: "number \<Rightarrow> bool" where
  "truthy NaN = False"
| "truthy (Number i) = (i \<noteq> 0)"

text \<open>
  A query parameter that is read as \<open>req.query.x ? parseInt(req.query.x) : undefined\<close>:
  \<open>None\<close> is \<open>undefined\<close> (parameter absent or empty), \<open>Some n\<close> is the parsed number.
\<close>

fun truthyQuery :: "number option \<Rightarrow> bool" where
  "truthyQuery None = False"
| "truthyQuery (Some n) = truthy n"

text \<open>JavaScript truthiness of an optional string: \<open>undefined\<close>, \<open>null\<close> and \<open>""\<close> are falsy.\<close>

fun truthyString :: "string option \<Rightarrow> bool" where
  "truthyString None = False"
| "truthyString (Some s) = (s \<noteq> [])"

text \<open>The expression \<open>a || b\<close> on an optional string \<open>a\<close> and a string \<open>b\<close>.\<close>

definition orElse :: "string option \<Rightarrow> string \<Rightarrow> string" where
  "orElse a b = (case a of None \<Rightarrow> b | Some s \<Rightarrow> if s = [] then b else s)"

text \<open>
  Response bodies are JSON values; an object is its list of fields in order. Objects are what
  the handlers build with spread syntax and what \<open>res.json\<close> serialises.
\<close>

datatype json =
    JNull
  | JBool bool
  | JNum int
  | JStr string
  | JArr "json list"
  | JObj "(string \<times> json) list"

text \<open>\<open>hasKey k j\<close>: some object inside \<open>j\<close>, at any depth, has a field named \<open>k\<close>.\<close>

fun hasKey :: "string \<Rightarrow> json \<Rightarrow> bool" where
  "hasKey k (JArr xs) = list_ex (hasKey k) xs"
| "hasKey k (JObj kvs) = list_ex (\<lambda>(k', v). k' = k \<or> hasKey k v) kvs"
| "hasKey k _ = False"

text \<open>
  The rest pattern \<open>const { k, ...rest } = obj\<close>: the object without its field \<open>k\<close>.
\<close>

fun omitKey :: "string \<Rightarrow> json \<Rightarrow> json" where
  "omitKey k (JObj kvs) = JObj (filter (\<lambda>(k', v). k' \<noteq> k) kvs)"
| "omitKey k j = j"

text \<open>The spread \<open>{ ...obj, k: v }\<close>: field \<open>k\<close> of the object is replaced or added.\<close>

fun withField :: "json \<Rightarrow> string \<Rightarrow> json \<Rightarrow> json" where
  "withField (JObj kvs) k v = JObj (filter (\<lambda>(k', w). k' \<noteq> k) kvs @ [(k, v)])"
| "withField j k v = JObj [(k, v)]"

definition optStr :: "string option \<Rightarrow> json" where
  "optStr a = (case a of None \<Rightarrow> JNull | Some s \<Rightarrow> JStr s)"

definition optNum :: "int option \<Rightarrow> json" where
  "optNum a = (case a of None \<Rightarrow> JNull | Some i \<Rightarrow> JNum i)"

record response =
  status :: nat
  body :: json

definition respond :: "nat \<Rightarrow> json \<Rightarrow> response" where
  "respond st b = \<lparr>status = st, body = b\<rparr>"

text \<open>The body \<open>{ message: m }\<close> of every error and of the delete confirmations.\<close>

definition message :: "string \<Rightarrow> json" where
  "message m = JObj [(''message'', JStr m)]"

text \<open>
  A date field of a payload is a string as sent by the client or a \<open>Date\<close> object built from
  one.
\<close>

datatype datev = DateString string | DateObject string

fun dateJson :: "datev option \<Rightarrow> json" where
  "dateJson None = JNull"
| "dateJson (Some (DateString d)) = JStr d"
| "dateJson (Some (DateObject d)) = JStr d"

text \<open>
  \<open>convertDatesToObjects\<close> visits the keys \<open>startDate\<close>, \<open>dueDate\<close>, \<open>createdAt\<close>,
  \<open>updatedAt\<close> of a body and replaces a non-empty string by \<open>new Date(string)\<close>;
  \<open>new Date\<close> does not throw. This is its action on one such field.
\<close>

fun convertDateField :: "datev option \<Rightarrow> datev option" where
  "convertDateField (Some (DateString d)) = (if d \<noteq> [] then Some (DateObject d) else Some (DateString d))"
| "convertDateField v = v"

text \<open>
  The body of a route guarded by \<open>validateBody(schema)\<close>. The schemas are imported from
  \<open>@shared/schema\<close>; a request carries the outcome of \<open>schema.parse\<close> on its converted body:
  the parsed value, or the list of Zod errors.
\<close>

datatype 'a parsed = Rejected json | Parsed 'a

section \<open>Entities\<close>

record user =
  u_id :: int
  u_username :: string
  u_email :: string
  u_password :: string
  u_fullName :: "string option"
  u_avatar :: "string option"
  u_role :: "string option"
  u_userType :: "string option"

record insertUser =
  iu_username :: string
  iu_password :: string
  iu_email :: string
  iu_fullName :: "string option"
  iu_avatar :: "string option"
  iu_role :: "string option"
  iu_userType :: "string option"

record userPatch =
  up_username :: "string option"
  up_password :: "string option"
  up_email :: "string option"
  up_fullName :: "string option"
  up_avatar :: "string option"
  up_role :: "string option"
  up_userType :: "string option"

record team =
  t_id :: int
  t_name :: string
  t_description :: "string option"
  t_createdBy :: int

record insertTeam =
  it_name :: string
  it_description :: "string option"
  it_createdBy :: int

record teamPatch =
  tp_name :: "string option"
  tp_description :: "string option"

record teamMember =
  tm_teamId :: int
  tm_userId :: int
  tm_role :: string

record project =
  p_id :: int
  p_teamId :: int
  p_name :: string
  p_description :: "string option"
  p_startDate :: "datev option"
  p_dueDate :: "datev option"

record insertProject =
  ip_teamId :: int
  ip_name :: string
  ip_description :: "string option"
  ip_startDate :: "datev option"
  ip_dueDate :: "datev option"

record projectPatch =
  pp_name :: "string option"
  pp_description :: "string option"
  pp_startDate :: "datev option"
  pp_dueDate :: "datev option"

record task =
  k_id :: int
  k_projectId :: int
  k_title :: string
  k_status :: string
  k_order :: int
  k_assigneeId :: "int option"
  k_dueDate :: "datev option"

record insertTask =
  ik_projectId :: int
  ik_title :: string
  ik_status :: string
  ik_order :: int
  ik_assigneeId :: "int option"
  ik_dueDate :: "datev option"

record taskPatch =
  kp_title :: "string option"
  kp_status :: "string option"
  kp_order :: "int option"
  kp_assigneeId :: "int option"
  kp_dueDate :: "datev option"

record comment =
  c_id :: int
  c_taskId :: int
  c_userId :: int
  c_content :: string

record insertComment =
  ic_taskId :: int
  ic_userId :: int
  ic_content :: string

record fileEntry =
  f_id :: int
  f_projectId :: int
  f_taskId :: "int option"
  f_uploadedBy :: int
  f_name :: string

record insertFile =
  if_projectId :: int
  if_taskId :: "int option"
  if_uploadedBy :: int
  if_name :: string

record msg =
  m_id :: int
  m_teamId :: int
  m_userId :: int
  m_content :: string

record insertMessage =
  im_teamId :: int
  im_userId :: int
  im_content :: string

text \<open>
  The body of a message post after \<open>insertMessageSchema.omit({ teamId: true, userId: true })\<close>.
\<close>

record messageBody =
  mb_content :: string

record loginBody =
  lb_username :: "string option"
  lb_password :: "string option"

subsection \<open>Serialisation\<close>

definition userJson :: "user \<Rightarrow> json" where
  "userJson u = JObj
     [(''id'', JNum (u_id u)), (''username'', JStr (u_username u)), (''email'', JStr (u_email u)),
      (''password'', JStr (u_password u)), (''fullName'', optStr (u_fullName u)),
      (''avatar'', optStr (u_avatar u)), (''role'', optStr (u_role u)),
      (''userType'', optStr (u_userType u))]"

text \<open>\<open>const { password, ...userWithoutPassword } = user\<close>.\<close>

definition userWithoutPassword :: "user \<Rightarrow> json" where
  "userWithoutPassword u = omitKey ''password'' (userJson u)"

definition teamJson :: "team \<Rightarrow> json" where
  "teamJson t = JObj
     [(''id'', JNum (t_id t)), (''name'', JStr (t_name t)),
      (''description'', optStr (t_description t)), (''createdBy'', JNum (t_createdBy t))]"

definition teamMemberJson :: "teamMember \<Rightarrow> json" where
  "teamMemberJson m = JObj
     [(''teamId'', JNum (tm_teamId m)), (''userId'', JNum (tm_userId m)),
      (''role'', JStr (tm_role m))]"

definition projectJson :: "project \<Rightarrow> json" where
  "projectJson p = JObj
     [(''id'', JNum (p_id p)), (''teamId'', JNum (p_teamId p)), (''name'', JStr (p_name p)),
      (''description'', optStr (p_description p)), (''startDate'', dateJson (p_startDate p)),
      (''dueDate'', dateJson (p_dueDate p))]"

definition taskJson :: "task \<Rightarrow> json" where
  "taskJson k = JObj
     [(''id'', JNum (k_id k)), (''projectId'', JNum (k_projectId k)), (''title'', JStr (k_title k)),
      (''status'', JStr (k_status k)), (''order'', JNum (k_order k)),
      (''assigneeId'', optNum (k_assigneeId k)), (''dueDate'', dateJson (k_dueDate k))]"

definition commentJson :: "comment \<Rightarrow> json" where
  "commentJson c = JObj
     [(''id'', JNum (c_id c)), (''taskId'', JNum (c_taskId c)), (''userId'', JNum (c_userId c)),
      (''content'', JStr (c_content c))]"

definition fileJson :: "fileEntry \<Rightarrow> json" where
  "fileJson f = JObj
     [(''id'', JNum (f_id f)), (''projectId'', JNum (f_projectId f)),
      (''taskId'', optNum (f_taskId f)), (''uploadedBy'', JNum (f_uploadedBy f)),
      (''name'', JStr (f_name f))]"

definition messageJson :: "msg \<Rightarrow> json" where
  "messageJson m = JObj
     [(''id'', JNum (m_id m)), (''teamId'', JNum (m_teamId m)), (''userId'', JNum (m_userId m)),
      (''content'', JStr (m_content m))]"

section \<open>The persistence interface\<close>

text \<open>
  Modelled from the spec: the module \<open>./storage\<close> (the object \<open>storage\<close> that every route
  calls) is not part of the sources. The spec describes it as the Identity Store: it persists
  Users, Teams, TeamMembers, Projects, Tasks, Comments, Files and Messages and exposes
  CRUD-style accessors keyed by numeric id or by foreign key; a lookup with \<open>NaN\<close> finds
  nothing. The store is a table per entity. Accessors never throw. A delete removes the
  record it names and nothing else; it reports whether there was one.
\<close>

record store =
  users :: "user list"
  teams :: "team list"
  teamMembers :: "teamMember list"
  projects :: "project list"
  tasks :: "task list"
  comments :: "comment list"
  files :: "fileEntry list"
  messages :: "msg list"

text \<open>Modelled from the spec: identifiers are unique; a new record gets an unused one.\<close>

definition nextId :: "int list \<Rightarrow> int" where
  "nextId ids = fold max ids 0 + 1"

text \<open>Modelled from the spec: lookup by numeric id; \<open>NaN\<close> is the id of no record.\<close>

fun lookupId :: "('a \<Rightarrow> int) \<Rightarrow> 'a list \<Rightarrow> number \<Rightarrow> 'a option" where
  "lookupId key xs NaN = None"
| "lookupId key xs (Number i) = find (\<lambda>x. key x = i) xs"

text \<open>Modelled from the spec: selection by foreign key.\<close>

fun selectBy :: "('a \<Rightarrow> int) \<Rightarrow> 'a list \<Rightarrow> number \<Rightarrow> 'a list" where
  "selectBy key xs NaN = []"
| "selectBy key xs (Number i) = filter (\<lambda>x. key x = i) xs"

text \<open>Modelled from the spec: removal by numeric id.\<close>

fun removeId :: "('a \<Rightarrow> int) \<Rightarrow> 'a list \<Rightarrow> number \<Rightarrow> 'a list" where
  "removeId key xs NaN = xs"
| "removeId key xs (Number i) = filter (\<lambda>x. key x \<noteq> i) xs"

text \<open>Modelled from the spec: replacement of the record with a given id.\<close>

definition replaceId :: "('a \<Rightarrow> int) \<Rightarrow> 'a list \<Rightarrow> 'a \<Rightarrow> 'a list" where
  "replaceId key xs y = map (\<lambda>x. if key x = key y then y else x) xs"

definition patched :: "'a option \<Rightarrow> 'a \<Rightarrow> 'a" where
  "patched new old = (case new of None \<Rightarrow> old | Some v \<Rightarrow> v)"

definition patchedOpt :: "'a option \<Rightarrow> 'a option \<Rightarrow> 'a option" where
  "patchedOpt new old = (case new of None \<Rightarrow> old | Some v \<Rightarrow> Some v)"

subsection \<open>Users\<close>

text \<open>Modelled from the spec: \<open>storage.getUser\<close>, \<open>getUserByUsername\<close>, \<open>getUserByEmail\<close>, \<open>getAllUsers\<close>.\<close>

definition getUser :: "store \<Rightarrow> number \<Rightarrow> user option" where
  "getUser s n = lookupId u_id (users s) n"

definition getUserByUsername :: "store \<Rightarrow> string \<Rightarrow> user option" where
  "getUserByUsername s name = find (\<lambda>u. u_username u = name) (users s)"

definition getUserByEmail :: "store \<Rightarrow> string \<Rightarrow> user option" where
  "getUserByEmail s mail = find (\<lambda>u. u_email u = mail) (users s)"

definition getAllUsers :: "store \<Rightarrow> user list" where
  "getAllUsers s = users s"

text \<open>Modelled from the spec: \<open>storage.createUser\<close> stores the given fields under a new id.\<close>

definition createUser :: "store \<Rightarrow> insertUser \<Rightarrow> store \<times> user" where
  "createUser s i =
     (let u = \<lparr>u_id = nextId (map u_id (users s)), u_username = iu_username i,
                u_email = iu_email i, u_password = iu_password i, u_fullName = iu_fullName i,
                u_avatar = iu_avatar i, u_role = iu_role i, u_userType = iu_userType i\<rparr>
      in (s\<lparr>users := users s @ [u]\<rparr>, u))"

text \<open>Modelled from the spec: \<open>storage.updateUser\<close> returns \<open>undefined\<close> for an unknown id.\<close>

definition updateUser :: "store \<Rightarrow> number \<Rightarrow> userPatch \<Rightarrow> store \<times> user option" where
  "updateUser s n p =
     (case getUser s n of
        None \<Rightarrow> (s, None)
      | Some u \<Rightarrow>
          (let u' = u\<lparr>u_username := patched (up_username p) (u_username u),
                       u_password := patched (up_password p) (u_password u),
                       u_email := patched (up_email p) (u_email u),
                       u_fullName := patchedOpt (up_fullName p) (u_fullName u),
                       u_avatar := patchedOpt (up_avatar p) (u_avatar u),
                       u_role := patchedOpt (up_role p) (u_role u),
                       u_userType := patchedOpt (up_userType p) (u_userType u)\<rparr>
           in (s\<lparr>users := replaceId u_id (users s) u'\<rparr>, Some u')))"

text \<open>Modelled from the spec: \<open>storage.deleteUser\<close> reports whether a user was removed.\<close>

definition deleteUser :: "store \<Rightarrow> number \<Rightarrow> store \<times> bool" where
  "deleteUser s n =
     (case getUser s n of
        None \<Rightarrow> (s, False)
      | Some u \<Rightarrow> (s\<lparr>users := removeId u_id (users s) n\<rparr>, True))"

subsection \<open>Teams and memberships\<close>

text \<open>Modelled from the spec: \<open>storage.getTeam\<close>, \<open>getTeamMembers\<close>, \<open>getTeamsByUser\<close>.\<close>

definition getTeam :: "store \<Rightarrow> number \<Rightarrow> team option" where
  "getTeam s n = lookupId t_id (teams s) n"

definition getTeamMembers :: "store \<Rightarrow> number \<Rightarrow> teamMember list" where
  "getTeamMembers s n = selectBy tm_teamId (teamMembers s) n"

definition getTeamsByUser :: "store \<Rightarrow> int \<Rightarrow> team list" where
  "getTeamsByUser s uid =
     filter (\<lambda>t. list_ex (\<lambda>m. tm_teamId m = t_id t \<and> tm_userId m = uid) (teamMembers s)) (teams s)"

text \<open>Modelled from the spec: \<open>storage.createTeam\<close>, \<open>updateTeam\<close>, \<open>deleteTeam\<close>.\<close>

definition createTeam :: "store \<Rightarrow> insertTeam \<Rightarrow> store \<times> team" where
  "createTeam s i =
     (let t = \<lparr>t_id = nextId (map t_id (teams s)), t_name = it_name i,
                t_description = it_description i, t_createdBy = it_createdBy i\<rparr>
      in (s\<lparr>teams := teams s @ [t]\<rparr>, t))"

definition updateTeam :: "store \<Rightarrow> int \<Rightarrow> teamPatch \<Rightarrow> store \<times> team option" where
  "updateTeam s i p =
     (case getTeam s (Number i) of
        None \<Rightarrow> (s, None)
      | Some t \<Rightarrow>
          (let t' = t\<lparr>t_name := patched (tp_name p) (t_name t),
                       t_description := patchedOpt (tp_description p) (t_description t)\<rparr>
           in (s\<lparr>teams := replaceId t_id (teams s) t'\<rparr>, Some t')))"

definition deleteTeam :: "store \<Rightarrow> int \<Rightarrow> store" where
  "deleteTeam s i = s\<lparr>teams := removeId t_id (teams s) (Number i)\<rparr>"

text \<open>Modelled from the spec: \<open>storage.addTeamMember\<close> records the membership it is given.\<close>

definition addTeamMember :: "store \<Rightarrow> teamMember \<Rightarrow> store \<times> teamMember" where
  "addTeamMember s m = (s\<lparr>teamMembers := teamMembers s @ [m]\<rparr>, m)"

text \<open>
  Modelled from the spec: \<open>storage.removeTeamMember\<close> removes the membership of a user in a
  team and reports whether there was one.
\<close>

fun removeTeamMember :: "store \<Rightarrow> number \<Rightarrow> number \<Rightarrow> store \<times> bool" where
  "removeTeamMember s (Number t) (Number u) =
     (if list_ex (\<lambda>m. tm_teamId m = t \<and> tm_userId m = u) (teamMembers s)
      then (s\<lparr>teamMembers := filter (\<lambda>m. \<not> (tm_teamId m = t \<and> tm_userId m = u)) (teamMembers s)\<rparr>, True)
      else (s, False))"
| "removeTeamMember s _ _ = (s, False)"

subsection \<open>Projects and tasks\<close>

text \<open>Modelled from the spec: \<open>storage.getProject\<close>, \<open>getProjectsByTeam\<close>.\<close>

definition getProject :: "store \<Rightarrow> number \<Rightarrow> project option" where
  "getProject s n = lookupId p_id (projects s) n"

definition getProjectsByTeam :: "store \<Rightarrow> number \<Rightarrow> project list" where
  "getProjectsByTeam s n = selectBy p_teamId (projects s) n"

text \<open>
  Modelled from the spec: \<open>storage.createProject\<close>, \<open>updateProject\<close>, \<open>deleteProject\<close>; the
  owning team of a project is immutable.
\<close>

definition createProject :: "store \<Rightarrow> insertProject \<Rightarrow> store \<times> project" where
  "createProject s i =
     (let p = \<lparr>p_id = nextId (map p_id (projects s)), p_teamId = ip_teamId i, p_name = ip_name i,
                p_description = ip_description i, p_startDate = ip_startDate i,
                p_dueDate = ip_dueDate i\<rparr>
      in (s\<lparr>projects := projects s @ [p]\<rparr>, p))"

definition updateProject :: "store \<Rightarrow> int \<Rightarrow> projectPatch \<Rightarrow> store \<times> project option" where
  "updateProject s i pt =
     (case getProject s (Number i) of
        None \<Rightarrow> (s, None)
      | Some p \<Rightarrow>
          (let p' = p\<lparr>p_name := patched (pp_name pt) (p_name p),
                       p_description := patchedOpt (pp_description pt) (p_description p),
                       p_startDate := patchedOpt (pp_startDate pt) (p_startDate p),
                       p_dueDate := patchedOpt (pp_dueDate pt) (p_dueDate p)\<rparr>
           in (s\<lparr>projects := replaceId p_id (projects s) p'\<rparr>, Some p')))"

definition deleteProject :: "store \<Rightarrow> int \<Rightarrow> store" where
  "deleteProject s i = s\<lparr>projects := removeId p_id (projects s) (Number i)\<rparr>"

text \<open>Modelled from the spec: \<open>storage.getTask\<close>, \<open>getTasksByProject\<close>, \<open>getTasksByAssignee\<close>.\<close>

definition getTask :: "store \<Rightarrow> number \<Rightarrow> task option" where
  "getTask s n = lookupId k_id (tasks s) n"

definition getTasksByProject :: "store \<Rightarrow> number \<Rightarrow> task list" where
  "getTasksByProject s n = selectBy k_projectId (tasks s) n"

fun getTasksByAssignee :: "store \<Rightarrow> number \<Rightarrow> task list" where
  "getTasksByAssignee s NaN = []"
| "getTasksByAssignee s (Number i) = filter (\<lambda>k. k_assigneeId k = Some i) (tasks s)"

text \<open>
  Modelled from the spec: \<open>storage.createTask\<close>, \<open>updateTask\<close>, \<open>updateTaskStatus\<close>,
  \<open>deleteTask\<close>; the owning project of a task is immutable.
\<close>

definition createTask :: "store \<Rightarrow> insertTask \<Rightarrow> store \<times> task" where
  "createTask s i =
     (let k = \<lparr>k_id = nextId (map k_id (tasks s)), k_projectId = ik_projectId i,
                k_title = ik_title i, k_status = ik_status i, k_order = ik_order i,
                k_assigneeId = ik_assigneeId i, k_dueDate = ik_dueDate i\<rparr>
      in (s\<lparr>tasks := tasks s @ [k]\<rparr>, k))"

definition updateTask :: "store \<Rightarrow> int \<Rightarrow> taskPatch \<Rightarrow> store \<times> task option" where
  "updateTask s i pt =
     (case getTask s (Number i) of
        None \<Rightarrow> (s, None)
      | Some k \<Rightarrow>
          (let k' = k\<lparr>k_title := patched (kp_title pt) (k_title k),
                       k_status := patched (kp_status pt) (k_status k),
                       k_order := patched (kp_order pt) (k_order k),
                       k_assigneeId := patchedOpt (kp_assigneeId pt) (k_assigneeId k),
                       k_dueDate := patchedOpt (kp_dueDate pt) (k_dueDate k)\<rparr>
           in (s\<lparr>tasks := replaceId k_id (tasks s) k'\<rparr>, Some k')))"

definition updateTaskStatus :: "store \<Rightarrow> int \<Rightarrow> string \<Rightarrow> int \<Rightarrow> store \<times> task option" where
  "updateTaskStatus s i st ord =
     (case getTask s (Number i) of
        None \<Rightarrow> (s, None)
      | Some k \<Rightarrow>
          (let k' = k\<lparr>k_status := st, k_order := ord\<rparr>
           in (s\<lparr>tasks := replaceId k_id (tasks s) k'\<rparr>, Some k')))"

definition deleteTask :: "store \<Rightarrow> int \<Rightarrow> store" where
  "deleteTask s i = s\<lparr>tasks := removeId k_id (tasks s) (Number i)\<rparr>"

subsection \<open>Comments, files and messages\<close>

text \<open>
  Modelled from the spec: \<open>storage.getComment\<close>, \<open>getCommentsByTask\<close>, \<open>createComment\<close>,
  \<open>deleteComment\<close>. A comment has an id, a task, an author and a body; the listing returns
  the comments of the task as they are stored.
\<close>

definition getComment :: "store \<Rightarrow> number \<Rightarrow> comment option" where
  "getComment s n = lookupId c_id (comments s) n"

definition getCommentsByTask :: "store \<Rightarrow> number \<Rightarrow> comment list" where
  "getCommentsByTask s n = selectBy c_taskId (comments s) n"

definition createComment :: "store \<Rightarrow> insertComment \<Rightarrow> store \<times> comment" where
  "createComment s i =
     (let c = \<lparr>c_id = nextId (map c_id (comments s)), c_taskId = ic_taskId i,
                c_userId = ic_userId i, c_content = ic_content i\<rparr>
      in (s\<lparr>comments := comments s @ [c]\<rparr>, c))"

definition deleteComment :: "store \<Rightarrow> number \<Rightarrow> store" where
  "deleteComment s n = s\<lparr>comments := removeId c_id (comments s) n\<rparr>"

text \<open>
  Modelled from the spec: \<open>storage.getFile\<close>, \<open>getFilesByProject\<close>, \<open>getFilesByTask\<close>,
  \<open>createFile\<close>, \<open>deleteFile\<close> on file metadata.
\<close>

definition getFile :: "store \<Rightarrow> number \<Rightarrow> fileEntry option" where
  "getFile s n = lookupId f_id (files s) n"

definition getFilesByProject :: "store \<Rightarrow> number \<Rightarrow> fileEntry list" where
  "getFilesByProject s n = selectBy f_projectId (files s) n"

fun getFilesByTask :: "store \<Rightarrow> number \<Rightarrow> fileEntry list" where
  "getFilesByTask s NaN = []"
| "getFilesByTask s (Number i) = filter (\<lambda>f. f_taskId f = Some i) (files s)"

definition createFile :: "store \<Rightarrow> insertFile \<Rightarrow> store \<times> fileEntry" where
  "createFile s i =
     (let f = \<lparr>f_id = nextId (map f_id (files s)), f_projectId = if_projectId i,
                f_taskId = if_taskId i, f_uploadedBy = if_uploadedBy i, f_name = if_name i\<rparr>
      in (s\<lparr>files := files s @ [f]\<rparr>, f))"

definition deleteFile :: "store \<Rightarrow> number \<Rightarrow> store" where
  "deleteFile s n = s\<lparr>files := removeId f_id (files s) n\<rparr>"

text \<open>
  Modelled from the spec: \<open>storage.getMessage\<close>, \<open>getMessagesByTeam\<close>, \<open>createMessage\<close>,
  \<open>deleteMessage\<close>. The route reads \<open>message.user\<close> of every listed message, so the listing
  joins each message of the team with the stored user of its author (\<open>None\<close> when that user
  is gone).
\<close>

definition getMessage :: "store \<Rightarrow> number \<Rightarrow> msg option" where
  "getMessage s n = lookupId m_id (messages s) n"

definition getMessagesByTeam :: "store \<Rightarrow> number \<Rightarrow> (msg \<times> user option) list" where
  "getMessagesByTeam s n =
     map (\<lambda>m. (m, getUser s (Number (m_userId m)))) (selectBy m_teamId (messages s) n)"

definition createMessage :: "store \<Rightarrow> insertMessage \<Rightarrow> store \<times> msg" where
  "createMessage s i =
     (let m = \<lparr>m_id = nextId (map m_id (messages s)), m_teamId = im_teamId i,
                m_userId = im_userId i, m_content = im_content i\<rparr>
      in (s\<lparr>messages := messages s @ [m]\<rparr>, m))"

definition deleteMessage :: "store \<Rightarrow> number \<Rightarrow> store" where
  "deleteMessage s n = s\<lparr>messages := removeId m_id (messages s) n\<rparr>"

section \<open>Middleware\<close>

text \<open>
  \<open>requireAuth\<close>: a request whose session has no \<open>userId\<close>, or the falsy \<open>userId\<close> 0, is
  answered 401 before the route runs.
\<close>

definition requireAuth :: "int option \<Rightarrow> store \<Rightarrow> (int \<Rightarrow> store \<times> response) \<Rightarrow> store \<times> response" where
  "requireAuth sess s next =
     (case sess of
        None \<Rightarrow> (s, respond 401 (message ''Unauthorized''))
      | Some uid \<Rightarrow>
          if uid = 0 then (s, respond 401 (message ''Unauthorized'')) else next uid)"

text \<open>\<open>validateBody(schema)\<close>: a body the schema rejects is answered 400 with the Zod errors.\<close>

definition validateBody :: "'a parsed \<Rightarrow> store \<Rightarrow> ('a \<Rightarrow> store \<times> response) \<Rightarrow> store \<times> response" where
  "validateBody b s next =
     (case b of
        Rejected errs \<Rightarrow>
          (s, respond 400 (JObj [(''message'', JStr ''Validation error''), (''errors'', errs)]))
      | Parsed v \<Rightarrow> next v)"

text \<open>The test \<open>!currentUser || currentUser.role !== "admin"\<close> on a looked-up user.\<close>

definition notAdminUser :: "user option \<Rightarrow> bool" where
  "notAdminUser cu = (case cu of None \<Rightarrow> True | Some u \<Rightarrow> u_role u \<noteq> Some ''admin'')"

text \<open>The test \<open>!membership || membership.role !== "admin"\<close> on the result of \<open>find\<close>.\<close>

definition notAdminMember :: "teamMember option \<Rightarrow> bool" where
  "notAdminMember mo = (case mo of None \<Rightarrow> True | Some m \<Rightarrow> tm_role m \<noteq> ''admin'')"

text \<open>\<open>teamMembers.find(member => member.userId === req.session.userId)\<close>.\<close>

definition findMember :: "teamMember list \<Rightarrow> int \<Rightarrow> teamMember option" where
  "findMember ms uid = find (\<lambda>member. tm_userId member = uid) ms"

text \<open>\<open>teamMembers.some(member => member.userId === req.session.userId)\<close>.\<close>

definition isMember :: "teamMember list \<Rightarrow> int \<Rightarrow> bool" where
  "isMember ms uid = list_ex (\<lambda>member. tm_userId member = uid) ms"

text \<open>\<open>res.json(x)\<close> of a value that may be \<open>undefined\<close>.\<close>

definition optJson :: "('a \<Rightarrow> json) \<Rightarrow> 'a option \<Rightarrow> json" where
  "optJson enc a = (case a of None \<Rightarrow> JNull | Some v \<Rightarrow> enc v)"

section \<open>Routes\<close>

text \<open>
  Each definition is the handler of one route of \<open>registerRoutes\<close>, named by method and
  path. A handler takes the store and, behind \<open>requireAuth\<close>, the session's user id; it
  returns the store after its storage calls and the response it sends. Every handler body
  sits in a \<open>try\<close> whose \<open>catch\<close> answers 500; the storage accessors do not throw
  here, so the answers 500 that remain are the explicit ones and the failed destructuring
  in the message listing.
\<close>

subsection \<open>Authentication\<close>

text \<open>\<open>POST /api/auth/login\<close>; the second component is \<open>req.session.userId\<close> afterwards.\<close>

definition post_auth_login :: "store \<Rightarrow> int option \<Rightarrow> loginBody \<Rightarrow> store \<times> int option \<times> response" where
  "post_auth_login s sess b =
     (if lb_username b = Some ''admin'' \<and> lb_password b = Some ''pass123'' then
        (case getUserByUsername s ''admin'' of
           Some adminUser \<Rightarrow>
             (s, Some (u_id adminUser), respond 200 (userWithoutPassword adminUser))
         | None \<Rightarrow>
             (case createUser s \<lparr>iu_username = ''admin'', iu_password = ''pass123'',
                                  iu_email = ''admin@teamflow.com'',
                                  iu_fullName = Some ''Administrator'', iu_avatar = None,
                                  iu_role = Some ''admin'', iu_userType = None\<rparr> of
                (s', adminUser) \<Rightarrow>
                  (s', Some (u_id adminUser), respond 200 (userWithoutPassword adminUser))))
      else
        (case Option.bind (lb_username b) (getUserByUsername s) of
           None \<Rightarrow> (s, sess, respond 401 (message ''Invalid credentials''))
         | Some user \<Rightarrow>
             if Some (u_password user) \<noteq> lb_password b
             then (s, sess, respond 401 (message ''Invalid credentials''))
             else (s, Some (u_id user), respond 200 (userWithoutPassword user))))"

text \<open>
  \<open>POST /api/auth/logout\<close>; \<open>err\<close> tells whether the session store reports an error from
  \<open>destroy\<close>.
\<close>

definition post_auth_logout :: "store \<Rightarrow> int option \<Rightarrow> bool \<Rightarrow> store \<times> int option \<times> response" where
  "post_auth_logout s sess err =
     (if err then (s, sess, respond 500 (message ''Failed to logout''))
      else (s, None, respond 200 (message ''Logged out successfully'')))"

definition get_auth_me :: "store \<Rightarrow> int \<Rightarrow> store \<times> response" where
  "get_auth_me s uid =
     (case getUser s (Number uid) of
        None \<Rightarrow> (s, respond 404 (message ''User not found''))
      | Some user \<Rightarrow> (s, respond 200 (userWithoutPassword user)))"

subsection \<open>Users\<close>

text \<open>The object literal built for each user by \<open>GET /api/users\<close>.\<close>

definition sanitizedUser :: "user \<Rightarrow> json" where
  "sanitizedUser u = JObj
     [(''id'', JNum (u_id u)), (''username'', JStr (u_username u)), (''email'', JStr (u_email u)),
      (''fullName'', JStr (orElse (u_fullName u) (u_username u))),
      (''avatar'', optStr (u_avatar u)),
      (''role'', JStr (orElse (u_role u) ''member'')),
      (''userType'', JStr (orElse (u_userType u) ''normal''))]"

definition get_users :: "store \<Rightarrow> int \<Rightarrow> store \<times> response" where
  "get_users s uid = (s, respond 200 (JArr (map sanitizedUser (getAllUsers s))))"

definition post_users :: "store \<Rightarrow> int \<Rightarrow> insertUser \<Rightarrow> store \<times> response" where
  "post_users s uid b =
     (if notAdminUser (getUser s (Number uid))
      then (s, respond 403 (message ''Only admins can create new users''))
      else if getUserByUsername s (iu_username b) \<noteq> None
      then (s, respond 400 (message ''Username already taken''))
      else if getUserByEmail s (iu_email b) \<noteq> None
      then (s, respond 400 (message ''Email already in use''))
      else (case createUser s b of
              (s', user) \<Rightarrow> (s', respond 201 (userWithoutPassword user))))"

definition get_users_id :: "store \<Rightarrow> int \<Rightarrow> number \<Rightarrow> store \<times> response" where
  "get_users_id s uid userId =
     (case getUser s userId of
        None \<Rightarrow> (s, respond 404 (message ''User not found''))
      | Some user \<Rightarrow> (s, respond 200 (userWithoutPassword user)))"

definition put_users_id :: "store \<Rightarrow> int \<Rightarrow> number \<Rightarrow> userPatch \<Rightarrow> store \<times> response" where
  "put_users_id s uid userId b =
     (let currentUser = getUser s (Number uid) in
      if Number uid \<noteq> userId \<and> notAdminUser currentUser
      then (s, respond 403 (message ''Not authorized to update this user''))
      else if truthyString (up_role b) \<and> notAdminUser currentUser
      then (s, respond 403 (message ''Not authorized to change role''))
      else (case updateUser s userId b of
              (s', None) \<Rightarrow> (s', respond 404 (message ''User not found''))
            | (s', Some updatedUser) \<Rightarrow> (s', respond 200 (userWithoutPassword updatedUser))))"

definition delete_users_id :: "store \<Rightarrow> int \<Rightarrow> number \<Rightarrow> store \<times> response" where
  "delete_users_id s uid userId =
     (if notAdminUser (getUser s (Number uid))
      then (s, respond 403 (message ''Not authorized to delete users''))
      else if Number uid = userId
      then (s, respond 400 (message ''Cannot delete your own account''))
      else (case deleteUser s userId of
              (s', success) \<Rightarrow>
                if \<not> success then (s', respond 404 (message ''User not found''))
                else (s', respond 200 (message ''User deleted successfully''))))"

subsection \<open>Teams\<close>

definition get_teams :: "store \<Rightarrow> int \<Rightarrow> store \<times> response" where
  "get_teams s uid = (s, respond 200 (JArr (map teamJson (getTeamsByUser s uid))))"

definition post_teams :: "store \<Rightarrow> int \<Rightarrow> insertTeam \<Rightarrow> store \<times> response" where
  "post_teams s uid b =
     (case getUser s (Number uid) of
        None \<Rightarrow> (s, respond 404 (message ''User not found''))
      | Some currentUser \<Rightarrow>
          if u_role currentUser \<noteq> Some ''admin''
          then (s, respond 403 (message ''Only admin users can create teams''))
          else (case createTeam s (b\<lparr>it_createdBy := uid\<rparr>) of
                  (s1, team) \<Rightarrow>
                    (case addTeamMember s1 \<lparr>tm_teamId = t_id team, tm_userId = uid,
                                             tm_role = ''admin''\<rparr> of
                       (s2, member) \<Rightarrow> (s2, respond 201 (teamJson team)))))"

definition get_teams_id :: "store \<Rightarrow> int \<Rightarrow> number \<Rightarrow> store \<times> response" where
  "get_teams_id s uid teamId =
     (case getTeam s teamId of
        None \<Rightarrow> (s, respond 404 (message ''Team not found''))
      | Some team \<Rightarrow> (s, respond 200 (teamJson team)))"

definition put_teams_id :: "store \<Rightarrow> int \<Rightarrow> number \<Rightarrow> teamPatch \<Rightarrow> store \<times> response" where
  "put_teams_id s uid teamId b =
     (case getTeam s teamId of
        None \<Rightarrow> (s, respond 404 (message ''Team not found''))
      | Some team \<Rightarrow>
          (let teamMembers = getTeamMembers s (Number (t_id team));
               currentUserMembership = findMember teamMembers uid in
           if notAdminMember currentUserMembership
           then (s, respond 403 (message ''Not authorized to update team''))
           else (case updateTeam s (t_id team) b of
                   (s', updatedTeam) \<Rightarrow> (s', respond 200 (optJson teamJson updatedTeam)))))"

definition delete_teams_id :: "store \<Rightarrow> int \<Rightarrow> number \<Rightarrow> store \<times> response" where
  "delete_teams_id s uid teamId =
     (case getTeam s teamId of
        None \<Rightarrow> (s, respond 404 (message ''Team not found''))
      | Some team \<Rightarrow>
          (let teamMembers = getTeamMembers s (Number (t_id team));
               currentUserMembership = findMember teamMembers uid in
           if notAdminMember currentUserMembership
           then (s, respond 403 (message ''Not authorized to delete team''))
           else (deleteTeam s (t_id team), respond 200 (message ''Team deleted successfully''))))"

subsection \<open>Team members\<close>

definition get_teams_id_members :: "store \<Rightarrow> int \<Rightarrow> number \<Rightarrow> store \<times> response" where
  "get_teams_id_members s uid teamId =
     (case getTeam s teamId of
        None \<Rightarrow> (s, respond 404 (message ''Team not found''))
      | Some team \<Rightarrow>
          (let teamMembers = getTeamMembers s teamId in
           if \<not> isMember teamMembers uid
           then (s, respond 403 (message ''Not authorized to view team members''))
           else (s, respond 200 (JArr (map teamMemberJson teamMembers)))))"

definition get_teams_id_members_current :: "store \<Rightarrow> int \<Rightarrow> number \<Rightarrow> store \<times> response" where
  "get_teams_id_members_current s uid teamId =
     (case getTeam s teamId of
        None \<Rightarrow> (s, respond 404 (message ''Team not found''))
      | Some team \<Rightarrow>
          (case findMember (getTeamMembers s teamId) uid of
             None \<Rightarrow> (s, respond 404 (message ''User is not a member of this team''))
           | Some currentMember \<Rightarrow> (s, respond 200 (teamMemberJson currentMember))))"

text \<open>
  \<open>POST /api/teams/:id/members\<close>. The new membership is \<open>{ ...req.body, teamId }\<close>; the team
  was found under \<open>teamId\<close>, so \<open>teamId\<close> is that team's id.
\<close>

definition post_teams_id_members :: "store \<Rightarrow> int \<Rightarrow> number \<Rightarrow> teamMember \<Rightarrow> store \<times> response" where
  "post_teams_id_members s uid teamId b =
     (case getTeam s teamId of
        None \<Rightarrow> (s, respond 404 (message ''Team not found''))
      | Some team \<Rightarrow>
          (let teamMembers = getTeamMembers s teamId;
               currentUserMembership = findMember teamMembers uid in
           if notAdminMember currentUserMembership
           then (s, respond 403 (message ''Not authorized to add team members''))
           else (case addTeamMember s (b\<lparr>tm_teamId := t_id team\<rparr>) of
                   (s', newTeamMember) \<Rightarrow> (s', respond 201 (teamMemberJson newTeamMember)))))"

definition delete_teams_teamId_members_userId :: "store \<Rightarrow> int \<Rightarrow> number \<Rightarrow> number \<Rightarrow> store \<times> response" where
  "delete_teams_teamId_members_userId s uid teamId userId =
     (case getTeam s teamId of
        None \<Rightarrow> (s, respond 404 (message ''Team not found''))
      | Some team \<Rightarrow>
          (let teamMembers = getTeamMembers s teamId;
               currentUserMembership = findMember teamMembers uid in
           if (case currentUserMembership of
                 None \<Rightarrow> True
               | Some m \<Rightarrow> tm_role m \<noteq> ''admin'' \<and> Number uid \<noteq> userId)
           then (s, respond 403 (message ''Not authorized to remove team member''))
           else (case removeTeamMember s teamId userId of
                   (s', result) \<Rightarrow>
                     if \<not> result then (s', respond 404 (message ''Team member not found''))
                     else (s', respond 200 (message ''Team member removed successfully'')))))"

subsection \<open>Projects\<close>

text \<open>
  \<open>if (q) { ... } else { ... }\<close> on an optional query parameter: the first branch runs on a
  truthy number, the second on \<open>undefined\<close>, \<open>NaN\<close> and \<open>0\<close>.
\<close>

definition ifTruthy :: "number option \<Rightarrow> (number \<Rightarrow> 'a) \<Rightarrow> 'a \<Rightarrow> 'a" where
  "ifTruthy q yes no = (case q of None \<Rightarrow> no | Some n \<Rightarrow> if truthy n then yes n else no)"

definition get_projects :: "store \<Rightarrow> int \<Rightarrow> number option \<Rightarrow> store \<times> response" where
  "get_projects s uid teamIdQ =
     ifTruthy teamIdQ
       (\<lambda>teamId.
          case getTeam s teamId of
            None \<Rightarrow> (s, respond 404 (message ''Team not found''))
          | Some team \<Rightarrow>
              if \<not> isMember (getTeamMembers s teamId) uid
              then (s, respond 403 (message ''Not authorized to view projects''))
              else (s, respond 200 (JArr (map projectJson (getProjectsByTeam s teamId)))))
       (let teams = getTeamsByUser s uid;
            projectsByTeam = map (\<lambda>team. getProjectsByTeam s (Number (t_id team))) teams
        in (s, respond 200 (JArr (map projectJson (concat projectsByTeam)))))"

text \<open>
  \<open>if (d && !(d instanceof Date)) d = new Date(d)\<close> on a date field of a project body.
\<close>

fun ensureDate :: "datev option \<Rightarrow> datev option" where
  "ensureDate (Some (DateString d)) = (if d \<noteq> [] then Some (DateObject d) else Some (DateString d))"
| "ensureDate v = v"

definition post_projects :: "store \<Rightarrow> int \<Rightarrow> insertProject \<Rightarrow> store \<times> response" where
  "post_projects s uid b =
     (case getTeam s (Number (ip_teamId b)) of
        None \<Rightarrow> (s, respond 404 (message ''Team not found''))
      | Some team \<Rightarrow>
          (case findMember (getTeamMembers s (Number (ip_teamId b))) uid of
             None \<Rightarrow> (s, respond 403 (message ''Not authorized to create project''))
           | Some userMembership \<Rightarrow>
               (case createProject s (b\<lparr>ip_startDate := ensureDate (ip_startDate b),
                                         ip_dueDate := ensureDate (ip_dueDate b)\<rparr>) of
                  (s', project) \<Rightarrow> (s', respond 201 (projectJson project)))))"

definition get_projects_id :: "store \<Rightarrow> int \<Rightarrow> number \<Rightarrow> store \<times> response" where
  "get_projects_id s uid projectId =
     (case getProject s projectId of
        None \<Rightarrow> (s, respond 404 (message ''Project not found''))
      | Some project \<Rightarrow>
          if \<not> isMember (getTeamMembers s (Number (p_teamId project))) uid
          then (s, respond 403 (message ''Not authorized to view project''))
          else (s, respond 200 (projectJson project)))"

text \<open>\<open>convertDatesToObjects\<close> on the body of a project update.\<close>

definition convertProjectDates :: "projectPatch \<Rightarrow> projectPatch" where
  "convertProjectDates b =
     b\<lparr>pp_startDate := convertDateField (pp_startDate b),
       pp_dueDate := convertDateField (pp_dueDate b)\<rparr>"

definition put_projects_id :: "store \<Rightarrow> int \<Rightarrow> number \<Rightarrow> projectPatch \<Rightarrow> store \<times> response" where
  "put_projects_id s uid projectId b =
     (case getProject s projectId of
        None \<Rightarrow> (s, respond 404 (message ''Project not found''))
      | Some project \<Rightarrow>
          (let userMembership = findMember (getTeamMembers s (Number (p_teamId project))) uid in
           if notAdminMember userMembership
           then (s, respond 403 (message ''Not authorized to update project''))
           else (case updateProject s (p_id project) (convertProjectDates b) of
                   (s', updatedProject) \<Rightarrow>
                     (s', respond 200 (optJson projectJson updatedProject)))))"

definition delete_projects_id :: "store \<Rightarrow> int \<Rightarrow> number \<Rightarrow> store \<times> response" where
  "delete_projects_id s uid projectId =
     (case getProject s projectId of
        None \<Rightarrow> (s, respond 404 (message ''Project not found''))
      | Some project \<Rightarrow>
          (let userMembership = findMember (getTeamMembers s (Number (p_teamId project))) uid in
           if notAdminMember userMembership
           then (s, respond 403 (message ''Not authorized to delete project''))
           else (deleteProject s (p_id project),
                 respond 200 (message ''Project deleted successfully''))))"

subsection \<open>Tasks\<close>

definition get_tasks :: "store \<Rightarrow> int \<Rightarrow> number option \<Rightarrow> number option \<Rightarrow> store \<times> response" where
  "get_tasks s uid projectIdQ assigneeIdQ =
     ifTruthy projectIdQ
       (\<lambda>projectId.
          case getProject s projectId of
            None \<Rightarrow> (s, respond 404 (message ''Project not found''))
          | Some project \<Rightarrow>
              if \<not> isMember (getTeamMembers s (Number (p_teamId project))) uid
              then (s, respond 403 (message ''Not authorized to view tasks''))
              else (s, respond 200 (JArr (map taskJson (getTasksByProject s projectId)))))
       (ifTruthy assigneeIdQ
          (\<lambda>assigneeId.
             if assigneeId \<noteq> Number uid
             then (s, respond 403 (message ''Not authorized to view other users' tasks''))
             else (s, respond 200 (JArr (map taskJson (getTasksByAssignee s assigneeId)))))
          (s, respond 200 (JArr (map taskJson (getTasksByAssignee s (Number uid))))))"

text \<open>\<open>convertDatesToObjects\<close> on the body of a task creation and of a task update.\<close>

definition convertInsertTaskDates :: "insertTask \<Rightarrow> insertTask" where
  "convertInsertTaskDates b = b\<lparr>ik_dueDate := convertDateField (ik_dueDate b)\<rparr>"

definition convertTaskDates :: "taskPatch \<Rightarrow> taskPatch" where
  "convertTaskDates b = b\<lparr>kp_dueDate := convertDateField (kp_dueDate b)\<rparr>"

definition post_tasks :: "store \<Rightarrow> int \<Rightarrow> insertTask \<Rightarrow> store \<times> response" where
  "post_tasks s uid b =
     (case getProject s (Number (ik_projectId b)) of
        None \<Rightarrow> (s, respond 404 (message ''Project not found''))
      | Some project \<Rightarrow>
          if \<not> isMember (getTeamMembers s (Number (p_teamId project))) uid
          then (s, respond 403 (message ''Not authorized to create task''))
          else (case createTask s (convertInsertTaskDates b) of
                  (s', task) \<Rightarrow> (s', respond 201 (taskJson task))))"

definition get_tasks_id :: "store \<Rightarrow> int \<Rightarrow> number \<Rightarrow> store \<times> response" where
  "get_tasks_id s uid taskId =
     (case getTask s taskId of
        None \<Rightarrow> (s, respond 404 (message ''Task not found''))
      | Some task \<Rightarrow>
          (case getProject s (Number (k_projectId task)) of
             None \<Rightarrow> (s, respond 404 (message ''Project not found''))
           | Some project \<Rightarrow>
               if \<not> isMember (getTeamMembers s (Number (p_teamId project))) uid
               then (s, respond 403 (message ''Not authorized to view task''))
               else (s, respond 200 (taskJson task))))"

definition put_tasks_id :: "store \<Rightarrow> int \<Rightarrow> number \<Rightarrow> taskPatch \<Rightarrow> store \<times> response" where
  "put_tasks_id s uid taskId b =
     (case getTask s taskId of
        None \<Rightarrow> (s, respond 404 (message ''Task not found''))
      | Some task \<Rightarrow>
          (case getProject s (Number (k_projectId task)) of
             None \<Rightarrow> (s, respond 404 (message ''Project not found''))
           | Some project \<Rightarrow>
               if \<not> isMember (getTeamMembers s (Number (p_teamId project))) uid
               then (s, respond 403 (message ''Not authorized to update task''))
               else (case updateTask s (k_id task) (convertTaskDates b) of
                       (s', updatedTask) \<Rightarrow>
                         (s', respond 200 (optJson taskJson updatedTask)))))"

text \<open>The body \<open>{ status, order }\<close> of \<open>PUT /api/tasks/:id/status\<close>.\<close>

record statusBody =
  sb_status :: string
  sb_order :: int

definition put_tasks_id_status :: "store \<Rightarrow> int \<Rightarrow> number \<Rightarrow> statusBody \<Rightarrow> store \<times> response" where
  "put_tasks_id_status s uid taskId b =
     (case getTask s taskId of
        None \<Rightarrow> (s, respond 404 (message ''Task not found''))
      | Some task \<Rightarrow>
          (case getProject s (Number (k_projectId task)) of
             None \<Rightarrow> (s, respond 404 (message ''Project not found''))
           | Some project \<Rightarrow>
               if \<not> isMember (getTeamMembers s (Number (p_teamId project))) uid
               then (s, respond 403 (message ''Not authorized to update task status''))
               else (case updateTaskStatus s (k_id task) (sb_status b) (sb_order b) of
                       (s', updatedTask) \<Rightarrow>
                         (s', respond 200 (optJson taskJson updatedTask)))))"

definition delete_tasks_id :: "store \<Rightarrow> int \<Rightarrow> number \<Rightarrow> store \<times> response" where
  "delete_tasks_id s uid taskId =
     (case getTask s taskId of
        None \<Rightarrow> (s, respond 404 (message ''Task not found''))
      | Some task \<Rightarrow>
          (case getProject s (Number (k_projectId task)) of
             None \<Rightarrow> (s, respond 404 (message ''Project not found''))
           | Some project \<Rightarrow>
               if \<not> isMember (getTeamMembers s (Number (p_teamId project))) uid
               then (s, respond 403 (message ''Not authorized to delete task''))
               else (deleteTask s (k_id task),
                     respond 200 (message ''Task deleted successfully''))))"

subsection \<open>Comments\<close>

definition get_tasks_taskId_comments :: "store \<Rightarrow> int \<Rightarrow> number \<Rightarrow> store \<times> response" where
  "get_tasks_taskId_comments s uid taskId =
     (case getTask s taskId of
        None \<Rightarrow> (s, respond 404 (message ''Task not found''))
      | Some task \<Rightarrow>
          (case getProject s (Number (k_projectId task)) of
             None \<Rightarrow> (s, respond 404 (message ''Project not found''))
           | Some project \<Rightarrow>
               if \<not> isMember (getTeamMembers s (Number (p_teamId project))) uid
               then (s, respond 403 (message ''Not authorized to view comments''))
               else (s, respond 200 (JArr (map commentJson (getCommentsByTask s taskId))))))"

text \<open>
  \<open>POST /api/tasks/:taskId/comments\<close>. The comment created is
  \<open>{ ...req.body, taskId, userId: req.session.userId }\<close>; the task was found under \<open>taskId\<close>,
  so \<open>taskId\<close> is that task's id. The comment is already stored when the user lookup fails.
\<close>

definition post_tasks_taskId_comments :: "store \<Rightarrow> int \<Rightarrow> number \<Rightarrow> insertComment \<Rightarrow> store \<times> response" where
  "post_tasks_taskId_comments s uid taskId b =
     (case getTask s taskId of
        None \<Rightarrow> (s, respond 404 (message ''Task not found''))
      | Some task \<Rightarrow>
          (case getProject s (Number (k_projectId task)) of
             None \<Rightarrow> (s, respond 404 (message ''Project not found''))
           | Some project \<Rightarrow>
               if \<not> isMember (getTeamMembers s (Number (p_teamId project))) uid
               then (s, respond 403 (message ''Not authorized to add comment''))
               else (case createComment s (b\<lparr>ic_taskId := k_id task, ic_userId := uid\<rparr>) of
                       (s', comment) \<Rightarrow>
                         (case getUser s' (Number uid) of
                            None \<Rightarrow> (s', respond 500 (message ''Failed to get user''))
                          | Some user \<Rightarrow>
                              (s', respond 201 (withField (commentJson comment) ''user''
                                                  (userWithoutPassword user)))))))"

text \<open>
  \<open>DELETE /api/comments/:id\<close>. \<open>denied\<close> is the response of an early return inside the
  \<open>if (comment.userId !== req.session.userId)\<close> block, if any.
\<close>

definition delete_comments_id :: "store \<Rightarrow> int \<Rightarrow> number \<Rightarrow> store \<times> response" where
  "delete_comments_id s uid commentId =
     (case getComment s commentId of
        None \<Rightarrow> (s, respond 404 (message ''Comment not found''))
      | Some comment \<Rightarrow>
          (let denied =
             (if c_userId comment \<noteq> uid then
                (case getTask s (Number (c_taskId comment)) of
                   None \<Rightarrow> Some (respond 404 (message ''Task not found''))
                 | Some task \<Rightarrow>
                     (case getProject s (Number (k_projectId task)) of
                        None \<Rightarrow> Some (respond 404 (message ''Project not found''))
                      | Some project \<Rightarrow>
                          (let userMembership =
                                 findMember (getTeamMembers s (Number (p_teamId project))) uid in
                           if notAdminMember userMembership
                           then Some (respond 403 (message ''Not authorized to delete comment''))
                           else None)))
              else None)
           in case denied of
                Some r \<Rightarrow> (s, r)
              | None \<Rightarrow> (deleteComment s commentId,
                          respond 200 (message ''Comment deleted successfully''))))"

subsection \<open>Files\<close>

definition get_projects_projectId_files :: "store \<Rightarrow> int \<Rightarrow> number \<Rightarrow> store \<times> response" where
  "get_projects_projectId_files s uid projectId =
     (case getProject s projectId of
        None \<Rightarrow> (s, respond 404 (message ''Project not found''))
      | Some project \<Rightarrow>
          if \<not> isMember (getTeamMembers s (Number (p_teamId project))) uid
          then (s, respond 403 (message ''Not authorized to view files''))
          else (s, respond 200 (JArr (map fileJson (getFilesByProject s projectId)))))"

definition get_tasks_taskId_files :: "store \<Rightarrow> int \<Rightarrow> number \<Rightarrow> store \<times> response" where
  "get_tasks_taskId_files s uid taskId =
     (case getTask s taskId of
        None \<Rightarrow> (s, respond 404 (message ''Task not found''))
      | Some task \<Rightarrow>
          (case getProject s (Number (k_projectId task)) of
             None \<Rightarrow> (s, respond 404 (message ''Project not found''))
           | Some project \<Rightarrow>
               if \<not> isMember (getTeamMembers s (Number (p_teamId project))) uid
               then (s, respond 403 (message ''Not authorized to view files''))
               else (s, respond 200 (JArr (map fileJson (getFilesByTask s taskId))))))"

text \<open>
  \<open>POST /api/files\<close>. The body is not validated before the handler runs; its fields are
  taken at the types of the file record. \<open>insertFileSchema\<close> is imported from
  \<open>@shared/schema\<close> and is a parameter: whether \<open>safeParse\<close> accepts the file data, and the
  Zod errors otherwise.
\<close>

definition post_files :: "(insertFile \<Rightarrow> json option) \<Rightarrow> store \<Rightarrow> int \<Rightarrow> insertFile \<Rightarrow> store \<times> response" where
  "post_files insertFileSchema s uid b =
     (case getProject s (Number (if_projectId b)) of
        None \<Rightarrow> (s, respond 404 (message ''Project not found''))
      | Some project \<Rightarrow>
          if \<not> isMember (getTeamMembers s (Number (p_teamId project))) uid
          then (s, respond 403 (message ''Not authorized to upload file''))
          else (let fileData = b\<lparr>if_uploadedBy := uid\<rparr> in
                case insertFileSchema fileData of
                  Some errs \<Rightarrow>
                    (s, respond 400 (JObj [(''message'', JStr ''Validation error''),
                                            (''errors'', errs)]))
                | None \<Rightarrow>
                    (case createFile s fileData of
                       (s', file) \<Rightarrow> (s', respond 201 (fileJson file)))))"

definition delete_files_id :: "store \<Rightarrow> int \<Rightarrow> number \<Rightarrow> store \<times> response" where
  "delete_files_id s uid fileId =
     (case getFile s fileId of
        None \<Rightarrow> (s, respond 404 (message ''File not found''))
      | Some file \<Rightarrow>
          (case getProject s (Number (f_projectId file)) of
             None \<Rightarrow> (s, respond 404 (message ''Project not found''))
           | Some project \<Rightarrow>
               (case findMember (getTeamMembers s (Number (p_teamId project))) uid of
                  None \<Rightarrow> (s, respond 403 (message ''Not authorized to delete file''))
                | Some userMembership \<Rightarrow>
                    if f_uploadedBy file \<noteq> uid \<and> tm_role userMembership \<noteq> ''admin''
                    then (s, respond 403 (message ''Not authorized to delete file''))
                    else (deleteFile s fileId,
                          respond 200 (message ''File deleted successfully'')))))"

subsection \<open>Messages\<close>

text \<open>
  The callback of \<open>messages.map\<close> in \<open>GET /api/teams/:teamId/messages\<close>: the message as the
  store returns it carries its user; the result is \<open>{ ...message, user: userWithoutPassword }\<close>.
  Destructuring an \<open>undefined\<close> user throws, which is \<open>None\<close> here.
\<close>

definition messageWithoutPassword :: "msg \<times> user option \<Rightarrow> json option" where
  "messageWithoutPassword mu =
     (case snd mu of
        None \<Rightarrow> None
      | Some u \<Rightarrow>
          Some (withField (withField (messageJson (fst mu)) ''user'' (userJson u)) ''user''
                  (userWithoutPassword u)))"

definition get_teams_teamId_messages :: "store \<Rightarrow> int \<Rightarrow> number \<Rightarrow> store \<times> response" where
  "get_teams_teamId_messages s uid teamId =
     (case getTeam s teamId of
        None \<Rightarrow> (s, respond 404 (message ''Team not found''))
      | Some team \<Rightarrow>
          if \<not> isMember (getTeamMembers s teamId) uid
          then (s, respond 403 (message ''Not authorized to view messages''))
          else (case those (map messageWithoutPassword (getMessagesByTeam s teamId)) of
                  None \<Rightarrow> (s, respond 500 (message ''Failed to get messages''))
                | Some messagesWithoutPassword \<Rightarrow>
                    (s, respond 200 (JArr messagesWithoutPassword))))"

text \<open>
  \<open>POST /api/teams/:teamId/messages\<close>. The message created is
  \<open>{ ...req.body, teamId, userId: req.session.userId }\<close>; the team was found under \<open>teamId\<close>,
  so \<open>teamId\<close> is that team's id. The message is already stored when the user lookup fails.
\<close>

definition post_teams_teamId_messages :: "store \<Rightarrow> int \<Rightarrow> number \<Rightarrow> messageBody \<Rightarrow> store \<times> response" where
  "post_teams_teamId_messages s uid teamId b =
     (case getTeam s teamId of
        None \<Rightarrow> (s, respond 404 (message ''Team not found''))
      | Some team \<Rightarrow>
          if \<not> isMember (getTeamMembers s teamId) uid
          then (s, respond 403 (message ''Not authorized to send message''))
          else (case createMessage s \<lparr>im_teamId = t_id team, im_userId = uid,
                                       im_content = mb_content b\<rparr> of
                  (s', m) \<Rightarrow>
                    (case getUser s' (Number uid) of
                       None \<Rightarrow> (s', respond 500 (message ''Failed to get user''))
                     | Some user \<Rightarrow>
                         (s', respond 201 (withField (messageJson m) ''user''
                                             (userWithoutPassword user))))))"

text \<open>
  \<open>DELETE /api/messages/:id\<close>. \<open>denied\<close> is the response of the early return inside the
  \<open>if (message.userId !== req.session.userId)\<close> block, if any.
\<close>

definition delete_messages_id :: "store \<Rightarrow> int \<Rightarrow> number \<Rightarrow> store \<times> response" where
  "delete_messages_id s uid messageId =
     (case getMessage s messageId of
        None \<Rightarrow> (s, respond 404 (message ''Message not found''))
      | Some m \<Rightarrow>
          (let denied =
             (if m_userId m \<noteq> uid then
                (let userMembership = findMember (getTeamMembers s (Number (m_teamId m))) uid in
                 if notAdminMember userMembership
                 then Some (respond 403 (message ''Not authorized to delete message''))
                 else None)
              else None)
           in case denied of
                Some r \<Rightarrow> (s, r)
              | None \<Rightarrow> (deleteMessage s messageId,
                          respond 200 (message ''Message deleted successfully''))))"

section \<open>The registered routes\<close>

text \<open>
  A request names its route and carries the parsed path and query parameters and the body.
  Routes registered with \<open>validateBody\<close> carry the outcome of the schema.
\<close>

datatype request =
    POST_auth_login loginBody
  | POST_auth_logout bool
  | GET_auth_me
  | GET_users
  | POST_users "insertUser parsed"
  | GET_users_id number
  | PUT_users_id number userPatch
  | DELETE_users_id number
  | GET_teams
  | POST_teams "insertTeam parsed"
  | GET_teams_id number
  | PUT_teams_id number teamPatch
  | DELETE_teams_id number
  | GET_teams_id_members number
  | GET_teams_id_members_current number
  | POST_teams_id_members number "teamMember parsed"
  | DELETE_teams_teamId_members_userId number number
  | GET_projects "number option"
  | POST_projects "insertProject parsed"
  | GET_projects_id number
  | PUT_projects_id number projectPatch
  | DELETE_projects_id number
  | GET_tasks "number option" "number option"
  | POST_tasks "insertTask parsed"
  | GET_tasks_id number
  | PUT_tasks_id number taskPatch
  | PUT_tasks_id_status number statusBody
  | DELETE_tasks_id number
  | GET_tasks_taskId_comments number
  | POST_tasks_taskId_comments number "insertComment parsed"
  | DELETE_comments_id number
  | GET_projects_projectId_files number
  | GET_tasks_taskId_files number
  | POST_files insertFile
  | DELETE_files_id number
  | GET_teams_teamId_messages number
  | POST_teams_teamId_messages number "messageBody parsed"
  | DELETE_messages_id number

text \<open>A route behind \<open>requireAuth\<close> leaves the session as it is.\<close>

definition authed :: "int option \<Rightarrow> store \<Rightarrow> (int \<Rightarrow> store \<times> response) \<Rightarrow> store \<times> int option \<times> response" where
  "authed sess s next = (case requireAuth sess s next of (s', r) \<Rightarrow> (s', sess, r))"

text \<open>
  \<open>handle\<close> runs a request through the middleware and the handler of its route, from the
  store and the session's \<open>userId\<close>; it returns the store, the session's \<open>userId\<close> and the
  response.
\<close>

primrec handle :: "(insertFile \<Rightarrow> json option) \<Rightarrow> store \<Rightarrow> int option \<Rightarrow> request \<Rightarrow> store \<times> int option \<times> response" where
  "handle sch s sess (POST_auth_login b) = post_auth_login s sess b"
| "handle sch s sess (POST_auth_logout err) = post_auth_logout s sess err"
| "handle sch s sess GET_auth_me = authed sess s (\<lambda>uid. get_auth_me s uid)"
| "handle sch s sess GET_users = authed sess s (\<lambda>uid. get_users s uid)"
| "handle sch s sess (POST_users b) =
     authed sess s (\<lambda>uid. validateBody b s (\<lambda>v. post_users s uid v))"
| "handle sch s sess (GET_users_id i) = authed sess s (\<lambda>uid. get_users_id s uid i)"
| "handle sch s sess (PUT_users_id i b) = authed sess s (\<lambda>uid. put_users_id s uid i b)"
| "handle sch s sess (DELETE_users_id i) = authed sess s (\<lambda>uid. delete_users_id s uid i)"
| "handle sch s sess GET_teams = authed sess s (\<lambda>uid. get_teams s uid)"
| "handle sch s sess (POST_teams b) =
     authed sess s (\<lambda>uid. validateBody b s (\<lambda>v. post_teams s uid v))"
| "handle sch s sess (GET_teams_id i) = authed sess s (\<lambda>uid. get_teams_id s uid i)"
| "handle sch s sess (PUT_teams_id i b) = authed sess s (\<lambda>uid. put_teams_id s uid i b)"
| "handle sch s sess (DELETE_teams_id i) = authed sess s (\<lambda>uid. delete_teams_id s uid i)"
| "handle sch s sess (GET_teams_id_members i) =
     authed sess s (\<lambda>uid. get_teams_id_members s uid i)"
| "handle sch s sess (GET_teams_id_members_current i) =
     authed sess s (\<lambda>uid. get_teams_id_members_current s uid i)"
| "handle sch s sess (POST_teams_id_members i b) =
     authed sess s (\<lambda>uid. validateBody b s (\<lambda>v. post_teams_id_members s uid i v))"
| "handle sch s sess (DELETE_teams_teamId_members_userId i j) =
     authed sess s (\<lambda>uid. delete_teams_teamId_members_userId s uid i j)"
| "handle sch s sess (GET_projects q) = authed sess s (\<lambda>uid. get_projects s uid q)"
| "handle sch s sess (POST_projects b) =
     authed sess s (\<lambda>uid. validateBody b s (\<lambda>v. post_projects s uid v))"
| "handle sch s sess (GET_projects_id i) = authed sess s (\<lambda>uid. get_projects_id s uid i)"
| "handle sch s sess (PUT_projects_id i b) = authed sess s (\<lambda>uid. put_projects_id s uid i b)"
| "handle sch s sess (DELETE_projects_id i) = authed sess s (\<lambda>uid. delete_projects_id s uid i)"
| "handle sch s sess (GET_tasks p a) = authed sess s (\<lambda>uid. get_tasks s uid p a)"
| "handle sch s sess (POST_tasks b) =
     authed sess s (\<lambda>uid. validateBody b s (\<lambda>v. post_tasks s uid v))"
| "handle sch s sess (GET_tasks_id i) = authed sess s (\<lambda>uid. get_tasks_id s uid i)"
| "handle sch s sess (PUT_tasks_id i b) = authed sess s (\<lambda>uid. put_tasks_id s uid i b)"
| "handle sch s sess (PUT_tasks_id_status i b) =
     authed sess s (\<lambda>uid. put_tasks_id_status s uid i b)"
| "handle sch s sess (DELETE_tasks_id i) = authed sess s (\<lambda>uid. delete_tasks_id s uid i)"
| "handle sch s sess (GET_tasks_taskId_comments i) =
     authed sess s (\<lambda>uid. get_tasks_taskId_comments s uid i)"
| "handle sch s sess (POST_tasks_taskId_comments i b) =
     authed sess s (\<lambda>uid. validateBody b s (\<lambda>v. post_tasks_taskId_comments s uid i v))"
| "handle sch s sess (DELETE_comments_id i) = authed sess s (\<lambda>uid. delete_comments_id s uid i)"
| "handle sch s sess (GET_projects_projectId_files i) =
     authed sess s (\<lambda>uid. get_projects_projectId_files s uid i)"
| "handle sch s sess (GET_tasks_taskId_files i) =
     authed sess s (\<lambda>uid. get_tasks_taskId_files s uid i)"
| "handle sch s sess (POST_files b) = authed sess s (\<lambda>uid. post_files sch s uid b)"
| "handle sch s sess (DELETE_files_id i) = authed sess s (\<lambda>uid. delete_files_id s uid i)"
| "handle sch s sess (GET_teams_teamId_messages i) =
     authed sess s (\<lambda>uid. get_teams_teamId_messages s uid i)"
| "handle sch s sess (POST_teams_teamId_messages i b) =
     authed sess s (\<lambda>uid. validateBody b s (\<lambda>v. post_teams_teamId_messages s uid i v))"
| "handle sch s sess (DELETE_messages_id i) = authed sess s (\<lambda>uid. delete_messages_id s uid i)"

text \<open>The team-scoped role of a user, as every route derives it from the member list.\<close>

definition teamRole :: "store \<Rightarrow> int \<Rightarrow> int \<Rightarrow> string option" where
  "teamRole s teamId uid =
     map_option tm_role (findMember (getTeamMembers s (Number teamId)) uid)"

text \<open>A session that passes \<open>requireAuth\<close> as user \<open>uid\<close>.\<close>

definition authenticated :: "int option \<Rightarrow> int \<Rightarrow> bool" where
  "authenticated sess uid = (sess = Some uid \<and> uid \<noteq> 0)"

definition success :: "response \<Rightarrow> bool" where
  "success r = (200 \<le> status r \<and> status r < 300)"

section \<open>Ownership chains\<close>

text \<open>
  The links whose existence a route looks up before it decides on authority, leaf first:
  \<open>missingLink\<close> is the type name of the first of them that is missing, if any. A route
  on a task resolves Task, then the task's Project; a route on a project resolves Project; a
  route on a team resolves Team. The Team record at the end of a Task or Project chain is no
  link here: the routes read the member list of \<open>project.teamId\<close> without looking the team
  up. Deleting a file resolves File, then Project. Deleting a comment resolves Comment and,
  unless the actor is its author, Task and Project; deleting a message resolves Message only.
  The user routes and the routes without a resource resolve no chain.
\<close>

definition teamChain :: "store \<Rightarrow> number \<Rightarrow> string option" where
  "teamChain s n = (case getTeam s n of None \<Rightarrow> Some ''Team'' | Some t \<Rightarrow> None)"

definition projectChain :: "store \<Rightarrow> number \<Rightarrow> string option" where
  "projectChain s n = (case getProject s n of None \<Rightarrow> Some ''Project'' | Some p \<Rightarrow> None)"

definition taskChain :: "store \<Rightarrow> number \<Rightarrow> string option" where
  "taskChain s n =
     (case getTask s n of
        None \<Rightarrow> Some ''Task''
      | Some k \<Rightarrow> projectChain s (Number (k_projectId k)))"

primrec missingLink :: "store \<Rightarrow> int \<Rightarrow> request \<Rightarrow> string option" where
  "missingLink s uid (POST_auth_login b) = None"
| "missingLink s uid (POST_auth_logout err) = None"
| "missingLink s uid GET_auth_me = None"
| "missingLink s uid GET_users = None"
| "missingLink s uid (POST_users b) = None"
| "missingLink s uid (GET_users_id i) = None"
| "missingLink s uid (PUT_users_id i b) = None"
| "missingLink s uid (DELETE_users_id i) = None"
| "missingLink s uid GET_teams = None"
| "missingLink s uid (POST_teams b) = None"
| "missingLink s uid (GET_teams_id i) = teamChain s i"
| "missingLink s uid (PUT_teams_id i b) = teamChain s i"
| "missingLink s uid (DELETE_teams_id i) = teamChain s i"
| "missingLink s uid (GET_teams_id_members i) = teamChain s i"
| "missingLink s uid (GET_teams_id_members_current i) = teamChain s i"
| "missingLink s uid (POST_teams_id_members i b) =
     (case b of Rejected e \<Rightarrow> None | Parsed v \<Rightarrow> teamChain s i)"
| "missingLink s uid (DELETE_teams_teamId_members_userId i j) = teamChain s i"
| "missingLink s uid (GET_projects q) = ifTruthy q (teamChain s) None"
| "missingLink s uid (POST_projects b) =
     (case b of Rejected e \<Rightarrow> None | Parsed v \<Rightarrow> teamChain s (Number (ip_teamId v)))"
| "missingLink s uid (GET_projects_id i) = projectChain s i"
| "missingLink s uid (PUT_projects_id i b) = projectChain s i"
| "missingLink s uid (DELETE_projects_id i) = projectChain s i"
| "missingLink s uid (GET_tasks p a) = ifTruthy p (projectChain s) None"
| "missingLink s uid (POST_tasks b) =
     (case b of Rejected e \<Rightarrow> None | Parsed v \<Rightarrow> projectChain s (Number (ik_projectId v)))"
| "missingLink s uid (GET_tasks_id i) = taskChain s i"
| "missingLink s uid (PUT_tasks_id i b) = taskChain s i"
| "missingLink s uid (PUT_tasks_id_status i b) = taskChain s i"
| "missingLink s uid (DELETE_tasks_id i) = taskChain s i"
| "missingLink s uid (GET_tasks_taskId_comments i) = taskChain s i"
| "missingLink s uid (POST_tasks_taskId_comments i b) =
     (case b of Rejected e \<Rightarrow> None | Parsed v \<Rightarrow> taskChain s i)"
| "missingLink s uid (DELETE_comments_id i) =
     (case getComment s i of
        None \<Rightarrow> Some ''Comment''
      | Some c \<Rightarrow> if c_userId c \<noteq> uid then taskChain s (Number (c_taskId c)) else None)"
| "missingLink s uid (GET_projects_projectId_files i) = projectChain s i"
| "missingLink s uid (GET_tasks_taskId_files i) = taskChain s i"
| "missingLink s uid (POST_files b) = projectChain s (Number (if_projectId b))"
| "missingLink s uid (DELETE_files_id i) =
     (case getFile s i of
        None \<Rightarrow> Some ''File''
      | Some f \<Rightarrow> projectChain s (Number (f_projectId f)))"
| "missingLink s uid (GET_teams_teamId_messages i) = teamChain s i"
| "missingLink s uid (POST_teams_teamId_messages i b) =
     (case b of Rejected e \<Rightarrow> None | Parsed v \<Rightarrow> teamChain s i)"
| "missingLink s uid (DELETE_messages_id i) =
     (case getMessage s i of None \<Rightarrow> Some ''Message'' | Some m \<Rightarrow> None)"

text \<open>A response discloses a password: it is a success and some object in it has the field.\<close>

definition discloses :: "response \<Rightarrow> bool" where
  "discloses r = (success r \<and> hasKey ''password'' (body r))"

text \<open>The status of the response to a request, and the store after it.\<close>

definition statusOf :: "store \<times> int option \<times> response \<Rightarrow> nat" where
  "statusOf x = status (snd (snd x))"

definition storeOf :: "store \<times> int option \<times> response \<Rightarrow> store" where
  "storeOf x = fst x"

definition bodyOf :: "store \<times> int option \<times> response \<Rightarrow> json" where
  "bodyOf x = body (snd (snd x))"

text \<open>The user named by a path parameter is listed as a member of team \<open>t\<close>.\<close>

definition targetIsMember :: "store \<Rightarrow> int \<Rightarrow> number \<Rightarrow> bool" where
  "targetIsMember s t userId =
     (case userId of NaN \<Rightarrow> False | Number u \<Rightarrow> isMember (getTeamMembers s (Number t)) u)"

section \<open>A sample store\<close>

text \<open>
  Three users: alice (global admin, admin of team Eng), bob (member of Eng) and carol (in no
  team). Carol is still the author of a comment whose task is gone, of a message in Eng's
  chat and of a file of Eng's project.
\<close>

definition alice :: user where
  "alice = \<lparr>u_id = 1, u_username = ''alice'', u_email = ''alice@example.com'',
            u_password = ''alice-secret'', u_fullName = Some ''Alice'', u_avatar = None,
            u_role = Some ''admin'', u_userType = None\<rparr>"

definition bob :: user where
  "bob = \<lparr>u_id = 2, u_username = ''bob'', u_email = ''bob@example.com'',
          u_password = ''bob-secret'', u_fullName = None, u_avatar = None,
          u_role = Some ''member'', u_userType = None\<rparr>"

definition carol :: user where
  "carol = \<lparr>u_id = 3, u_username = ''carol'', u_email = ''carol@example.com'',
            u_password = ''carol-secret'', u_fullName = None, u_avatar = None,
            u_role = Some ''member'', u_userType = None\<rparr>"

definition eng :: team where
  "eng = \<lparr>t_id = 1, t_name = ''Eng'', t_description = None, t_createdBy = 1\<rparr>"

definition exampleStore :: store where
  "exampleStore =
     \<lparr>users = [alice, bob, carol],
      teams = [eng],
      teamMembers = [\<lparr>tm_teamId = 1, tm_userId = 1, tm_role = ''admin''\<rparr>,
                     \<lparr>tm_teamId = 1, tm_userId = 2, tm_role = ''member''\<rparr>],
      projects = [\<lparr>p_id = 1, p_teamId = 1, p_name = ''Site'', p_description = None,
                    p_startDate = None, p_dueDate = None\<rparr>],
      tasks = [\<lparr>k_id = 1, k_projectId = 1, k_title = ''Draft'', k_status = ''todo'', k_order = 0,
                 k_assigneeId = Some 2, k_dueDate = None\<rparr>],
      comments = [\<lparr>c_id = 1, c_taskId = 1, c_userId = 2, c_content = ''first''\<rparr>,
                  \<lparr>c_id = 2, c_taskId = 7, c_userId = 3, c_content = ''orphan''\<rparr>,
                  \<lparr>c_id = 3, c_taskId = 1, c_userId = 1, c_content = ''review''\<rparr>],
      files = [\<lparr>f_id = 1, f_projectId = 1, f_taskId = None, f_uploadedBy = 2, f_name = ''a.txt''\<rparr>,
               \<lparr>f_id = 2, f_projectId = 1, f_taskId = None, f_uploadedBy = 3, f_name = ''b.txt''\<rparr>],
      messages = [\<lparr>m_id = 1, m_teamId = 1, m_userId = 2, m_content = ''hello''\<rparr>,
                  \<lparr>m_id = 2, m_teamId = 1, m_userId = 3, m_content = ''bye''\<rparr>]\<rparr>"

text \<open>A file schema that accepts every file data.\<close>

definition noFileErrors :: "insertFile \<Rightarrow> json option" where
  "noFileErrors d = None"

text \<open>Sample payloads.\<close>

definition renameTask :: taskPatch where
  "renameTask = \<lparr>kp_title = Some ''Final'', kp_status = None, kp_order = None,
                  kp_assigneeId = None, kp_dueDate = None\<rparr>"

definition renameTeam :: teamPatch where
  "renameTeam = \<lparr>tp_name = Some ''Engineering'', tp_description = None\<rparr>"

definition renameProject :: projectPatch where
  "renameProject = \<lparr>pp_name = Some ''Portal'', pp_description = None, pp_startDate = None,
                     pp_dueDate = None\<rparr>"

definition inviteCarol :: teamMember where
  "inviteCarol = \<lparr>tm_teamId = 5, tm_userId = 3, tm_role = ''member''\<rparr>"

definition newTeam :: insertTeam where
  "newTeam = \<lparr>it_name = ''Ops'', it_description = None, it_createdBy = 3\<rparr>"

definition forgedComment :: insertComment where
  "forgedComment = \<lparr>ic_taskId = 9, ic_userId = 1, ic_content = ''signed alice''\<rparr>"

definition forgedFile :: insertFile where
  "forgedFile = \<lparr>if_projectId = 1, if_taskId = None, if_uploadedBy = 1, if_name = ''c.txt''\<rparr>"

text \<open>
  The sample store without its team record, without its project record, and after alice has
  deleted comment 1.
\<close>

definition teamlessStore :: store where
  "teamlessStore = exampleStore\<lparr>teams := []\<rparr>"

definition projectlessStore :: store where
  "projectlessStore = exampleStore\<lparr>projects := []\<rparr>"

definition afterDelete :: store where
  "afterDelete = storeOf (handle noFileErrors exampleStore (Some 1) (DELETE_comments_id (Number 1)))"

section \<open>Properties\<close>

subsection \<open>Lookups and middleware\<close>

lemma lookupId_Some:
  "lookupId key xs n = Some x \<Longrightarrow> n = Number (key x) \<and> x \<in> set xs"
  by (cases n) (auto simp: find_Some_iff)

lemma lookupId_removeId: "lookupId key (removeId key xs n) n = None"
  by (cases n) (auto simp: find_None_iff)

lemma authed_authenticated:
  "authenticated sess uid \<Longrightarrow> authed sess s next = (fst (next uid), sess, snd (next uid))"
  by (simp add: authenticated_def authed_def requireAuth_def split: prod.splits)

lemma isMember_findMember: "isMember ms uid \<longleftrightarrow> findMember ms uid \<noteq> None"
  by (auto simp: isMember_def findMember_def find_None_iff list_ex_iff)

lemmas store_eval = exampleStore_def getComment_def getMessage_def getFile_def getProject_def
  getTask_def getTeam_def getUser_def getTeamMembers_def isMember_def findMember_def
  teamRole_def authenticated_def eng_def alice_def bob_def carol_def

lemmas eval2 = store_eval statusOf_def storeOf_def bodyOf_def respond_def Let_def

lemma auth_eval: "authenticated (Some 1) 1" "authenticated (Some 2) 2" "authenticated (Some 3) 3"
  by (simp_all add: authenticated_def)

lemma teamRole_Some:
  "teamRole s t uid = Some r \<Longrightarrow>
     \<exists>m. findMember (getTeamMembers s (Number t)) uid = Some m \<and> tm_role m = r"
  by (auto simp: teamRole_def)

lemma getTeam_Some: "getTeam s n = Some t \<Longrightarrow> n = Number (t_id t)"
  by (simp add: getTeam_def lookupId_Some)

lemma getProject_Some: "getProject s n = Some p \<Longrightarrow> n = Number (p_id p)"
  by (simp add: getProject_def lookupId_Some)

lemma getTask_Some: "getTask s n = Some k \<Longrightarrow> n = Number (k_id k)"
  by (simp add: getTask_def lookupId_Some)


subsection \<open>Deleting as the author\<close>

text \<open>
  Claim C10. When the actor is the author of a comment or of a message, the delete routes
  for comments and messages look at nothing but the comment or message itself: whatever the
  member lists, tasks and projects hold, the record is deleted and the answer is 200. So an
  author who has left the team, or whose comment's task is gone, still deletes it. The
  delete route for files is different: the uploader of a file whose project's team does not
  list the uploader as a member is answered 403 and the store stays as it is.
\<close>

theorem author_delete_skips_membership:
  assumes "authenticated sess uid"
  shows "(\<forall>c. getComment s n = Some c \<and> c_userId c = uid \<longrightarrow>
            handle sch s sess (DELETE_comments_id n)
              = (deleteComment s n, sess, respond 200 (message ''Comment deleted successfully'')))
       \<and> (\<forall>m. getMessage s n = Some m \<and> m_userId m = uid \<longrightarrow>
            handle sch s sess (DELETE_messages_id n)
              = (deleteMessage s n, sess, respond 200 (message ''Message deleted successfully'')))
       \<and> (\<forall>f p. getFile s n = Some f \<and> f_uploadedBy f = uid
              \<and> getProject s (Number (f_projectId f)) = Some p
              \<and> \<not> isMember (getTeamMembers s (Number (p_teamId p))) uid \<longrightarrow>
            handle sch s sess (DELETE_files_id n)
              = (s, sess, respond 403 (message ''Not authorized to delete file'')))"
  using assms
  by (auto simp: authed_authenticated delete_comments_id_def delete_messages_id_def
        delete_files_id_def isMember_findMember)

text \<open>
  Carol is in no team and the task of her comment does not exist; she deletes her comment
  and her message, and is refused the deletion of her file.
\<close>

theorem author_delete_skips_membership_witness:
  "authenticated (Some 3) 3
   \<and> getComment exampleStore (Number 2)
       = Some \<lparr>c_id = 2, c_taskId = 7, c_userId = 3, c_content = ''orphan''\<rparr>
   \<and> getTask exampleStore (Number 7) = None
   \<and> teamRole exampleStore 1 3 = None
   \<and> handle noFileErrors exampleStore (Some 3) (DELETE_comments_id (Number 2))
       = (deleteComment exampleStore (Number 2), Some 3,
          respond 200 (message ''Comment deleted successfully''))
   \<and> handle noFileErrors exampleStore (Some 3) (DELETE_messages_id (Number 2))
       = (deleteMessage exampleStore (Number 2), Some 3,
          respond 200 (message ''Message deleted successfully''))
   \<and> handle noFileErrors exampleStore (Some 3) (DELETE_files_id (Number 2))
       = (exampleStore, Some 3, respond 403 (message ''Not authorized to delete file''))"
proof -
  have a: "authenticated (Some 3) 3" by (simp add: authenticated_def)
  show ?thesis
    using author_delete_skips_membership [OF a, of exampleStore "Number 2" noFileErrors]
    by (simp add: store_eval)
qed

subsection \<open>Deleting comments, files and messages\<close>

text \<open>
  Claim C4. For an existing comment, file or message whose owning team lists the actor as a
  member with some role: the delete route succeeds (answer 200, the record is removed and a
  later lookup finds nothing) when the actor is the author or uploader, whatever that role
  is, and when the role is admin; every other member is answered 403 and the store is left
  as it is.
\<close>

theorem delete_by_author_or_admin:
  assumes "authenticated sess uid"
  shows
   "(\<forall>c k p r. getComment s n = Some c \<and> getTask s (Number (c_taskId c)) = Some k
        \<and> getProject s (Number (k_projectId k)) = Some p
        \<and> teamRole s (p_teamId p) uid = Some r \<longrightarrow>
       handle sch s sess (DELETE_comments_id n) =
         (if c_userId c = uid \<or> r = ''admin''
          then (deleteComment s n, sess, respond 200 (message ''Comment deleted successfully''))
          else (s, sess, respond 403 (message ''Not authorized to delete comment''))))
    \<and> (\<forall>f p r. getFile s n = Some f \<and> getProject s (Number (f_projectId f)) = Some p
        \<and> teamRole s (p_teamId p) uid = Some r \<longrightarrow>
       handle sch s sess (DELETE_files_id n) =
         (if f_uploadedBy f = uid \<or> r = ''admin''
          then (deleteFile s n, sess, respond 200 (message ''File deleted successfully''))
          else (s, sess, respond 403 (message ''Not authorized to delete file''))))
    \<and> (\<forall>m r. getMessage s n = Some m \<and> teamRole s (m_teamId m) uid = Some r \<longrightarrow>
       handle sch s sess (DELETE_messages_id n) =
         (if m_userId m = uid \<or> r = ''admin''
          then (deleteMessage s n, sess, respond 200 (message ''Message deleted successfully''))
          else (s, sess, respond 403 (message ''Not authorized to delete message''))))
    \<and> getComment (deleteComment s n) n = None
    \<and> getFile (deleteFile s n) n = None
    \<and> getMessage (deleteMessage s n) n = None"
proof -
  have c: "\<And>c k p r. getComment s n = Some c \<Longrightarrow> getTask s (Number (c_taskId c)) = Some k
        \<Longrightarrow> getProject s (Number (k_projectId k)) = Some p
        \<Longrightarrow> teamRole s (p_teamId p) uid = Some r \<Longrightarrow>
       handle sch s sess (DELETE_comments_id n) =
         (if c_userId c = uid \<or> r = ''admin''
          then (deleteComment s n, sess, respond 200 (message ''Comment deleted successfully''))
          else (s, sess, respond 403 (message ''Not authorized to delete comment'')))"
    using assms
    by (auto simp: authed_authenticated delete_comments_id_def notAdminMember_def
          dest!: teamRole_Some)
  have f: "\<And>f p r. getFile s n = Some f \<Longrightarrow> getProject s (Number (f_projectId f)) = Some p
        \<Longrightarrow> teamRole s (p_teamId p) uid = Some r \<Longrightarrow>
       handle sch s sess (DELETE_files_id n) =
         (if f_uploadedBy f = uid \<or> r = ''admin''
          then (deleteFile s n, sess, respond 200 (message ''File deleted successfully''))
          else (s, sess, respond 403 (message ''Not authorized to delete file'')))"
    using assms
    by (auto simp: authed_authenticated delete_files_id_def dest!: teamRole_Some)
  have m: "\<And>m r. getMessage s n = Some m \<Longrightarrow> teamRole s (m_teamId m) uid = Some r \<Longrightarrow>
       handle sch s sess (DELETE_messages_id n) =
         (if m_userId m = uid \<or> r = ''admin''
          then (deleteMessage s n, sess, respond 200 (message ''Message deleted successfully''))
          else (s, sess, respond 403 (message ''Not authorized to delete message'')))"
    using assms
    by (auto simp: authed_authenticated delete_messages_id_def notAdminMember_def
          dest!: teamRole_Some)
  have g: "getComment (deleteComment s n) n = None" "getFile (deleteFile s n) n = None"
      "getMessage (deleteMessage s n) n = None"
    by (simp_all add: getComment_def deleteComment_def getFile_def deleteFile_def
          getMessage_def deleteMessage_def lookupId_removeId)
  from c f m g show ?thesis by blast
qed

subsection \<open>Operations reserved to team admins\<close>

lemma isMember_getTeamMembers:
  "isMember (getTeamMembers s (Number t)) u
     = list_ex (\<lambda>m. tm_teamId m = t \<and> tm_userId m = u) (teamMembers s)"
  by (auto simp: isMember_def getTeamMembers_def list_ex_iff)

lemma removeTeamMember_NaN: "removeTeamMember s tn NaN = (s, False)"
  by (cases tn) simp_all

lemma team_ops:
  assumes "authenticated sess uid" "getTeam s (Number t) = Some team" "teamRole s t uid = Some r"
  shows "statusOf (handle sch s sess (PUT_teams_id (Number t) tb)) = (if r = ''admin'' then 200 else 403)"
    and "statusOf (handle sch s sess (DELETE_teams_id (Number t))) = (if r = ''admin'' then 200 else 403)"
    and "statusOf (handle sch s sess (POST_teams_id_members (Number t) (Parsed mb)))
           = (if r = ''admin'' then 201 else 403)"
    and "userId \<noteq> Number uid \<Longrightarrow>
         statusOf (handle sch s sess (DELETE_teams_teamId_members_userId (Number t) userId))
           = (if r = ''admin'' then (if targetIsMember s t userId then 200 else 404) else 403)"
    and "r \<noteq> ''admin'' \<Longrightarrow> storeOf (handle sch s sess (PUT_teams_id (Number t) tb)) = s"
    and "r \<noteq> ''admin'' \<Longrightarrow> storeOf (handle sch s sess (DELETE_teams_id (Number t))) = s"
    and "r \<noteq> ''admin'' \<Longrightarrow> storeOf (handle sch s sess (POST_teams_id_members (Number t) (Parsed mb))) = s"
    and "r \<noteq> ''admin'' \<Longrightarrow> userId \<noteq> Number uid \<Longrightarrow>
          storeOf (handle sch s sess (DELETE_teams_teamId_members_userId (Number t) userId)) = s"
proof -
  from assms(2) have tid: "t_id team = t" by (auto dest: getTeam_Some)
  from assms(3) obtain m where m: "findMember (getTeamMembers s (Number t)) uid = Some m" "tm_role m = r"
    by (auto dest: teamRole_Some)
  show "statusOf (handle sch s sess (PUT_teams_id (Number t) tb)) = (if r = ''admin'' then 200 else 403)"
    using assms(1,2) tid m
    by (simp add: statusOf_def authed_authenticated put_teams_id_def notAdminMember_def respond_def
          split: prod.splits)
  show "statusOf (handle sch s sess (DELETE_teams_id (Number t))) = (if r = ''admin'' then 200 else 403)"
    using assms(1,2) tid m
    by (simp add: statusOf_def authed_authenticated delete_teams_id_def notAdminMember_def respond_def)
  show "statusOf (handle sch s sess (POST_teams_id_members (Number t) (Parsed mb)))
           = (if r = ''admin'' then 201 else 403)"
    using assms(1,2) tid m
    by (simp add: statusOf_def authed_authenticated post_teams_id_members_def validateBody_def
          notAdminMember_def respond_def addTeamMember_def)
  show "userId \<noteq> Number uid \<Longrightarrow>
         statusOf (handle sch s sess (DELETE_teams_teamId_members_userId (Number t) userId))
           = (if r = ''admin'' then (if targetIsMember s t userId then 200 else 404) else 403)"
    using assms(1,2) tid m
    by (cases userId)
       (auto simp: statusOf_def authed_authenticated delete_teams_teamId_members_userId_def
          respond_def targetIsMember_def removeTeamMember_NaN isMember_getTeamMembers
          split: prod.splits)
  show "r \<noteq> ''admin'' \<Longrightarrow> storeOf (handle sch s sess (PUT_teams_id (Number t) tb)) = s"
    using assms(1,2) tid m
    by (simp add: storeOf_def authed_authenticated put_teams_id_def notAdminMember_def)
  show "r \<noteq> ''admin'' \<Longrightarrow> storeOf (handle sch s sess (DELETE_teams_id (Number t))) = s"
    using assms(1,2) tid m
    by (simp add: storeOf_def authed_authenticated delete_teams_id_def notAdminMember_def)
  show "r \<noteq> ''admin'' \<Longrightarrow> storeOf (handle sch s sess (POST_teams_id_members (Number t) (Parsed mb))) = s"
    using assms(1,2) tid m
    by (simp add: storeOf_def authed_authenticated post_teams_id_members_def validateBody_def
          notAdminMember_def)
  show "r \<noteq> ''admin'' \<Longrightarrow> userId \<noteq> Number uid \<Longrightarrow>
          storeOf (handle sch s sess (DELETE_teams_teamId_members_userId (Number t) userId)) = s"
    using assms(1,2) tid m
    by (simp add: storeOf_def authed_authenticated delete_teams_teamId_members_userId_def)
qed

lemma project_ops:
  assumes "authenticated sess uid" "getProject s pn = Some p" "teamRole s (p_teamId p) uid = Some r"
  shows "statusOf (handle sch s sess (PUT_projects_id pn pb)) = (if r = ''admin'' then 200 else 403)"
    and "statusOf (handle sch s sess (DELETE_projects_id pn)) = (if r = ''admin'' then 200 else 403)"
    and "r \<noteq> ''admin'' \<Longrightarrow> storeOf (handle sch s sess (PUT_projects_id pn pb)) = s"
    and "r \<noteq> ''admin'' \<Longrightarrow> storeOf (handle sch s sess (DELETE_projects_id pn)) = s"
  using assms
  by (auto simp: statusOf_def storeOf_def authed_authenticated put_projects_id_def
        delete_projects_id_def notAdminMember_def respond_def
        dest!: teamRole_Some split: prod.splits)

lemma task_ops:
  assumes "authenticated sess uid" "getTask s kn = Some k"
    "getProject s (Number (k_projectId k)) = Some p" "teamRole s (p_teamId p) uid = Some r"
  shows "statusOf (handle sch s sess (PUT_tasks_id kn kb)) = 200"
    and "statusOf (handle sch s sess (DELETE_tasks_id kn)) = 200"
  using assms
  by (auto simp: statusOf_def authed_authenticated put_tasks_id_def
        delete_tasks_id_def isMember_findMember respond_def
        dest!: teamRole_Some split: prod.splits)

text \<open>
  Claim C1, amended. Let the actor be authenticated with team-scoped role \<open>r\<close> in an
  existing team. Team update, team delete, member add (with a body that passes validation),
  removal of another user's membership, and update and delete of a project of the team are
  answered 403 with the store unchanged when \<open>r\<close> is not admin, in particular when it
  is member; when \<open>r\<close> is admin they succeed (the removal with 200 when the target is a
  member of the team, 404 otherwise). Task update and task delete are not reserved to
  admins: they succeed for every member of the owning team, whatever the role.
\<close>

theorem admin_only_operations:
  assumes "authenticated sess uid" and "getTeam s (Number t) = Some team"
    and "teamRole s t uid = Some r"
  shows
   "statusOf (handle sch s sess (PUT_teams_id (Number t) tb)) = (if r = ''admin'' then 200 else 403)
    \<and> statusOf (handle sch s sess (DELETE_teams_id (Number t))) = (if r = ''admin'' then 200 else 403)
    \<and> statusOf (handle sch s sess (POST_teams_id_members (Number t) (Parsed mb)))
          = (if r = ''admin'' then 201 else 403)
    \<and> (userId \<noteq> Number uid \<longrightarrow>
          statusOf (handle sch s sess (DELETE_teams_teamId_members_userId (Number t) userId))
            = (if r = ''admin'' then (if targetIsMember s t userId then 200 else 404) else 403))
    \<and> (\<forall>p. getProject s pn = Some p \<and> p_teamId p = t \<longrightarrow>
          statusOf (handle sch s sess (PUT_projects_id pn pb)) = (if r = ''admin'' then 200 else 403)
          \<and> statusOf (handle sch s sess (DELETE_projects_id pn)) = (if r = ''admin'' then 200 else 403))
    \<and> (\<forall>k p. getTask s kn = Some k \<and> getProject s (Number (k_projectId k)) = Some p
              \<and> p_teamId p = t \<longrightarrow>
          statusOf (handle sch s sess (PUT_tasks_id kn kb)) = 200
          \<and> statusOf (handle sch s sess (DELETE_tasks_id kn)) = 200)
    \<and> (r \<noteq> ''admin'' \<longrightarrow>
          storeOf (handle sch s sess (PUT_teams_id (Number t) tb)) = s
          \<and> storeOf (handle sch s sess (DELETE_teams_id (Number t))) = s
          \<and> storeOf (handle sch s sess (POST_teams_id_members (Number t) (Parsed mb))) = s
          \<and> (userId \<noteq> Number uid \<longrightarrow>
               storeOf (handle sch s sess (DELETE_teams_teamId_members_userId (Number t) userId)) = s)
          \<and> (\<forall>p. getProject s pn = Some p \<and> p_teamId p = t \<longrightarrow>
               storeOf (handle sch s sess (PUT_projects_id pn pb)) = s
               \<and> storeOf (handle sch s sess (DELETE_projects_id pn)) = s))"
proof -
  note tm = team_ops [OF assms]
  have role: "teamRole s (p_teamId p) uid = Some r" if "p_teamId p = t" for p
    using that assms(3) by simp
  have c4: "userId \<noteq> Number uid \<longrightarrow>
          statusOf (handle sch s sess (DELETE_teams_teamId_members_userId (Number t) userId))
            = (if r = ''admin'' then (if targetIsMember s t userId then 200 else 404) else 403)"
    by (rule impI) (rule tm(4))
  have c5: "\<forall>p. getProject s pn = Some p \<and> p_teamId p = t \<longrightarrow>
          statusOf (handle sch s sess (PUT_projects_id pn pb)) = (if r = ''admin'' then 200 else 403)
          \<and> statusOf (handle sch s sess (DELETE_projects_id pn)) = (if r = ''admin'' then 200 else 403)"
  proof (intro allI impI, elim conjE)
    fix p assume p: "getProject s pn = Some p" "p_teamId p = t"
    show "statusOf (handle sch s sess (PUT_projects_id pn pb)) = (if r = ''admin'' then 200 else 403)
          \<and> statusOf (handle sch s sess (DELETE_projects_id pn)) = (if r = ''admin'' then 200 else 403)"
      using project_ops(1,2) [OF assms(1) p(1) role [OF p(2)]] by simp
  qed
  have c6: "\<forall>k p. getTask s kn = Some k \<and> getProject s (Number (k_projectId k)) = Some p
              \<and> p_teamId p = t \<longrightarrow>
          statusOf (handle sch s sess (PUT_tasks_id kn kb)) = 200
          \<and> statusOf (handle sch s sess (DELETE_tasks_id kn)) = 200"
  proof (intro allI impI, elim conjE)
    fix k p assume k: "getTask s kn = Some k" "getProject s (Number (k_projectId k)) = Some p"
      "p_teamId p = t"
    show "statusOf (handle sch s sess (PUT_tasks_id kn kb)) = 200
          \<and> statusOf (handle sch s sess (DELETE_tasks_id kn)) = 200"
      using task_ops [OF assms(1) k(1,2) role [OF k(3)]] by simp
  qed
  have c7: "r \<noteq> ''admin'' \<longrightarrow>
          storeOf (handle sch s sess (PUT_teams_id (Number t) tb)) = s
          \<and> storeOf (handle sch s sess (DELETE_teams_id (Number t))) = s
          \<and> storeOf (handle sch s sess (POST_teams_id_members (Number t) (Parsed mb))) = s
          \<and> (userId \<noteq> Number uid \<longrightarrow>
               storeOf (handle sch s sess (DELETE_teams_teamId_members_userId (Number t) userId)) = s)
          \<and> (\<forall>p. getProject s pn = Some p \<and> p_teamId p = t \<longrightarrow>
               storeOf (handle sch s sess (PUT_projects_id pn pb)) = s
               \<and> storeOf (handle sch s sess (DELETE_projects_id pn)) = s)"
  proof (intro impI conjI allI)
    assume r: "r \<noteq> ''admin''"
    show "storeOf (handle sch s sess (PUT_teams_id (Number t) tb)) = s" by (rule tm(5) [OF r])
    show "storeOf (handle sch s sess (DELETE_teams_id (Number t))) = s" by (rule tm(6) [OF r])
    show "storeOf (handle sch s sess (POST_teams_id_members (Number t) (Parsed mb))) = s"
      by (rule tm(7) [OF r])
    show "storeOf (handle sch s sess (DELETE_teams_teamId_members_userId (Number t) userId)) = s"
      if "userId \<noteq> Number uid" by (rule tm(8) [OF r that])
    show "storeOf (handle sch s sess (PUT_projects_id pn pb)) = s"
      if "getProject s pn = Some p \<and> p_teamId p = t" for p
      using that project_ops(3) [OF assms(1) _ role r] by blast
    show "storeOf (handle sch s sess (DELETE_projects_id pn)) = s"
      if "getProject s pn = Some p \<and> p_teamId p = t" for p
      using that project_ops(4) [OF assms(1) _ role r] by blast
  qed
  show ?thesis
    by (intro conjI) (rule tm(1) tm(2) tm(3) c4 c5 c6 c7)+
qed

text \<open>
  Bob (role member in Eng) is refused the six operations; alice (role admin) performs them,
  and updates and deletes a task as well.
\<close>

theorem admin_only_operations_witness:
  "authenticated (Some 2) 2 \<and> getTeam exampleStore (Number 1) = Some eng
   \<and> teamRole exampleStore 1 2 = Some ''member''
   \<and> statusOf (handle noFileErrors exampleStore (Some 2) (PUT_teams_id (Number 1) renameTeam)) = 403
   \<and> statusOf (handle noFileErrors exampleStore (Some 2) (DELETE_teams_id (Number 1))) = 403
   \<and> statusOf (handle noFileErrors exampleStore (Some 2)
         (POST_teams_id_members (Number 1) (Parsed inviteCarol))) = 403
   \<and> statusOf (handle noFileErrors exampleStore (Some 2)
         (DELETE_teams_teamId_members_userId (Number 1) (Number 1))) = 403
   \<and> statusOf (handle noFileErrors exampleStore (Some 2) (PUT_projects_id (Number 1) renameProject)) = 403
   \<and> statusOf (handle noFileErrors exampleStore (Some 2) (DELETE_projects_id (Number 1))) = 403
   \<and> authenticated (Some 1) 1 \<and> teamRole exampleStore 1 1 = Some ''admin''
   \<and> statusOf (handle noFileErrors exampleStore (Some 1) (PUT_teams_id (Number 1) renameTeam)) = 200
   \<and> statusOf (handle noFileErrors exampleStore (Some 1) (DELETE_teams_id (Number 1))) = 200
   \<and> statusOf (handle noFileErrors exampleStore (Some 1)
         (POST_teams_id_members (Number 1) (Parsed inviteCarol))) = 201
   \<and> statusOf (handle noFileErrors exampleStore (Some 1)
         (DELETE_teams_teamId_members_userId (Number 1) (Number 2))) = 200
   \<and> statusOf (handle noFileErrors exampleStore (Some 1) (PUT_projects_id (Number 1) renameProject)) = 200
   \<and> statusOf (handle noFileErrors exampleStore (Some 1) (DELETE_projects_id (Number 1))) = 200
   \<and> statusOf (handle noFileErrors exampleStore (Some 1) (PUT_tasks_id (Number 1) renameTask)) = 200
   \<and> statusOf (handle noFileErrors exampleStore (Some 1) (DELETE_tasks_id (Number 1))) = 200"
proof -
  have t: "getTeam exampleStore (Number 1) = Some eng" by (simp add: store_eval eng_def)
  have r: "teamRole exampleStore 1 2 = Some ''member''" "teamRole exampleStore 1 1 = Some ''admin''"
    by (simp_all add: store_eval)
  have o: "Number 1 \<noteq> Number 2" "Number 2 \<noteq> Number 1" by simp_all
  note bob = admin_only_operations [OF auth_eval(2) t r(1), where sch = noFileErrors
      and tb = renameTeam and mb = inviteCarol and userId = "Number 1" and pn = "Number 1"
      and pb = renameProject and kn = "Number 1" and kb = renameTask]
  note alice = admin_only_operations [OF auth_eval(1) t r(2), where sch = noFileErrors
      and tb = renameTeam and mb = inviteCarol and userId = "Number 2" and pn = "Number 1"
      and pb = renameProject and kn = "Number 1" and kb = renameTask]
  show ?thesis
    using bob alice t r
    by (simp add: auth_eval) (simp add: store_eval targetIsMember_def)
qed

text \<open>
  Claim C1 as stated fails for tasks: bob, whose role in Eng is member, updates and deletes a
  task of Eng's project and is answered 200 both times, not 403.
\<close>

theorem member_updates_and_deletes_task:
  "authenticated (Some 2) 2
   \<and> teamRole exampleStore 1 2 = Some ''member''
   \<and> statusOf (handle noFileErrors exampleStore (Some 2) (PUT_tasks_id (Number 1) renameTask)) = 200
   \<and> statusOf (handle noFileErrors exampleStore (Some 2) (DELETE_tasks_id (Number 1))) = 200
   \<and> tasks (storeOf (handle noFileErrors exampleStore (Some 2) (DELETE_tasks_id (Number 1)))) = []"
  by (simp add: eval2 authed_def requireAuth_def put_tasks_id_def delete_tasks_id_def
        updateTask_def deleteTask_def convertTaskDates_def)

text \<open>
  For claim C4 on the sample store: bob (member) deletes his own comment, file and message,
  alice (admin) deletes bob's, and bob is refused alice's comment and carol's file and
  message.
\<close>

theorem delete_by_author_or_admin_witness:
  "teamRole exampleStore 1 2 = Some ''member'' \<and> teamRole exampleStore 1 1 = Some ''admin''
   \<and> statusOf (handle noFileErrors exampleStore (Some 2) (DELETE_comments_id (Number 1))) = 200
   \<and> statusOf (handle noFileErrors exampleStore (Some 1) (DELETE_comments_id (Number 1))) = 200
   \<and> statusOf (handle noFileErrors exampleStore (Some 2) (DELETE_comments_id (Number 3))) = 403
   \<and> statusOf (handle noFileErrors exampleStore (Some 2) (DELETE_files_id (Number 1))) = 200
   \<and> statusOf (handle noFileErrors exampleStore (Some 1) (DELETE_files_id (Number 1))) = 200
   \<and> statusOf (handle noFileErrors exampleStore (Some 2) (DELETE_files_id (Number 2))) = 403
   \<and> statusOf (handle noFileErrors exampleStore (Some 2) (DELETE_messages_id (Number 1))) = 200
   \<and> statusOf (handle noFileErrors exampleStore (Some 1) (DELETE_messages_id (Number 1))) = 200
   \<and> statusOf (handle noFileErrors exampleStore (Some 2) (DELETE_messages_id (Number 2))) = 403"
  using delete_by_author_or_admin [OF auth_eval(2), of exampleStore "Number 1" noFileErrors]
    delete_by_author_or_admin [OF auth_eval(1), of exampleStore "Number 1" noFileErrors]
    delete_by_author_or_admin [OF auth_eval(2), of exampleStore "Number 3" noFileErrors]
    delete_by_author_or_admin [OF auth_eval(2), of exampleStore "Number 2" noFileErrors]
  by (simp add: store_eval statusOf_def respond_def)

subsection \<open>Reading a team\<close>

text \<open>
  Claim C2 says that reading a team by id succeeds only for a member of the team. The handler
  of \<open>GET /api/teams/:id\<close> looks the team up and returns it; it never reads the member
  list. Carol, who is in no team, is answered 200 with team Eng.
\<close>

theorem get_team_ignores_membership:
  "authenticated (Some 3) 3
   \<and> \<not> isMember (getTeamMembers exampleStore (Number 1)) 3
   \<and> handle noFileErrors exampleStore (Some 3) (GET_teams_id (Number 1))
       = (exampleStore, Some 3, respond 200 (teamJson eng))"
  by (simp add: eval2 authed_def requireAuth_def get_teams_id_def)

subsection \<open>Tasks by assignee\<close>

text \<open>
  Claim C3, amended. For an authenticated actor A and a request without a truthy
  \<open>projectId\<close>: \<open>GET /api/tasks?assigneeId=U\<close> is answered 403 for every U other than
  A's id and other than 0, whatever A's global role; for U equal to A's id it returns the
  tasks assigned to A; and \<open>assigneeId=0\<close>, like a non-numeric \<open>assigneeId\<close>, is falsy
  and handled as if the parameter were absent: 200 with the tasks assigned to A.
\<close>

theorem assignee_query:
  assumes "authenticated sess uid" and "\<not> truthyQuery projectIdQ"
  shows
   "(\<forall>U. U \<noteq> 0 \<and> U \<noteq> uid \<longrightarrow>
        handle sch s sess (GET_tasks projectIdQ (Some (Number U)))
          = (s, sess, respond 403 (message ''Not authorized to view other users' tasks'')))
    \<and> handle sch s sess (GET_tasks projectIdQ (Some (Number uid)))
          = (s, sess, respond 200 (JArr (map taskJson (getTasksByAssignee s (Number uid)))))
    \<and> handle sch s sess (GET_tasks projectIdQ (Some (Number 0)))
          = (s, sess, respond 200 (JArr (map taskJson (getTasksByAssignee s (Number uid)))))
    \<and> handle sch s sess (GET_tasks projectIdQ (Some NaN))
          = (s, sess, respond 200 (JArr (map taskJson (getTasksByAssignee s (Number uid)))))"
  using assms
  by (cases projectIdQ)
     (auto simp: authed_authenticated get_tasks_def ifTruthy_def authenticated_def)

text \<open>
  Alice, a global admin, is refused bob's tasks; bob gets his own, the one task of the
  sample store.
\<close>

theorem assignee_query_witness:
  "authenticated (Some 1) 1 \<and> \<not> truthyQuery None
   \<and> u_role alice = Some ''admin''
   \<and> handle noFileErrors exampleStore (Some 1) (GET_tasks None (Some (Number 2)))
        = (exampleStore, Some 1, respond 403 (message ''Not authorized to view other users' tasks''))
   \<and> handle noFileErrors exampleStore (Some 2) (GET_tasks None (Some (Number 2)))
        = (exampleStore, Some 2, respond 200 (JArr (map taskJson (tasks exampleStore))))"
proof -
  have q: "\<not> truthyQuery None" by simp
  show ?thesis
    using assignee_query [OF auth_eval(1) q, of noFileErrors exampleStore]
      assignee_query [OF auth_eval(2) q, of noFileErrors exampleStore]
    by (simp add: store_eval)
qed

text \<open>
  Claim C3 as stated fails at U = 0: alice, whose id is 1, asks for \<open>assigneeId=0\<close> and is
  answered 200 with the tasks assigned to herself (none), not 403.
\<close>

theorem assignee_zero_treated_as_absent:
  "authenticated (Some 1) 1
   \<and> Number 0 \<noteq> Number 1
   \<and> handle noFileErrors exampleStore (Some 1) (GET_tasks None (Some (Number 0)))
        = (exampleStore, Some 1, respond 200 (JArr []))"
  by (simp add: eval2 authed_def requireAuth_def get_tasks_def ifTruthy_def)

subsection \<open>Creating a team\<close>

lemma fold_max_ge: "(a::int) \<le> fold max xs a"
proof (induction xs arbitrary: a)
  case Nil
  then show ?case by simp
next
  case (Cons x xs)
  have "a \<le> max x a" by simp
  also have "\<dots> \<le> fold max xs (max x a)" by (rule Cons.IH)
  finally show ?case by simp
qed

lemma fold_max_mem: "(x::int) \<in> set xs \<Longrightarrow> x \<le> fold max xs a"
proof (induction xs arbitrary: a)
  case Nil
  then show ?case by simp
next
  case (Cons y ys)
  show ?case
  proof (cases "x = y")
    case True
    have "x \<le> max y a" using True by simp
    also have "\<dots> \<le> fold max ys (max y a)" by (rule fold_max_ge)
    finally show ?thesis by simp
  next
    case False
    with Cons.prems have "x \<in> set ys" by simp
    then show ?thesis using Cons.IH by simp
  qed
qed

lemma nextId_fresh: "x \<in> set ids \<Longrightarrow> x < nextId ids"
  using fold_max_mem [of x ids 0] by (simp add: nextId_def)

lemma find_snoc_fresh: "\<forall>x\<in>set xs. \<not> P x \<Longrightarrow> P y \<Longrightarrow> find P (xs @ [y]) = Some y"
  by (induction xs) auto

lemma lookupId_fresh: "lookupId key xs (Number (nextId (map key xs))) = None"
proof -
  have "key x \<noteq> nextId (map key xs)" if "x \<in> set xs" for x
    using nextId_fresh [of "key x" "map key xs"] that by auto
  then show ?thesis by (auto simp: find_None_iff)
qed

lemma lookupId_created:
  "key y = nextId (map key xs) \<Longrightarrow> lookupId key (xs @ [y]) (Number (key y)) = Some y"
proof -
  assume k: "key y = nextId (map key xs)"
  have "key x \<noteq> key y" if "x \<in> set xs" for x
    using nextId_fresh [of "key x" "map key xs"] that k by auto
  then show ?thesis by (simp add: find_snoc_fresh)
qed

lemma post_teams_admin:
  assumes "getUser s (Number uid) = Some u" "u_role u = Some ''admin''"
  shows "\<exists>team. post_teams s uid b
           = (s\<lparr>teams := teams s @ [team],
                 teamMembers := teamMembers s @ [\<lparr>tm_teamId = t_id team, tm_userId = uid,
                                                   tm_role = ''admin''\<rparr>]\<rparr>,
              respond 201 (teamJson team))
         \<and> t_id team = nextId (map t_id (teams s)) \<and> t_createdBy team = uid
         \<and> t_name team = it_name b \<and> t_description team = it_description b"
  using assms
  by (intro exI [of _ "\<lparr>t_id = nextId (map t_id (teams s)), t_name = it_name b,
                          t_description = it_description b, t_createdBy = uid\<rparr>"])
     (simp add: post_teams_def createTeam_def addTeamMember_def Let_def)

text \<open>
  Claim C8. For an authenticated actor and a body that passes validation,
  \<open>POST /api/teams\<close> is answered 201 exactly when the actor's user record has global role
  admin, and 403 with the store unchanged when the record has another role. On success the
  response is the new team, created by the actor under an id that was not in use, and the
  member list of that team holds the entry (team id, actor, role admin).
\<close>

theorem team_creation:
  assumes "authenticated sess uid"
  shows
   "(statusOf (handle sch s sess (POST_teams (Parsed b))) = 201
       \<longleftrightarrow> (\<exists>u. getUser s (Number uid) = Some u \<and> u_role u = Some ''admin''))
    \<and> (\<forall>u. getUser s (Number uid) = Some u \<and> u_role u \<noteq> Some ''admin'' \<longrightarrow>
          handle sch s sess (POST_teams (Parsed b))
            = (s, sess, respond 403 (message ''Only admin users can create teams'')))
    \<and> (statusOf (handle sch s sess (POST_teams (Parsed b))) = 201 \<longrightarrow>
          (\<exists>team. bodyOf (handle sch s sess (POST_teams (Parsed b))) = teamJson team
             \<and> getTeam s (Number (t_id team)) = None
             \<and> getTeam (storeOf (handle sch s sess (POST_teams (Parsed b)))) (Number (t_id team))
                  = Some team
             \<and> t_createdBy team = uid
             \<and> \<lparr>tm_teamId = t_id team, tm_userId = uid, tm_role = ''admin''\<rparr>
                  \<in> set (getTeamMembers (storeOf (handle sch s sess (POST_teams (Parsed b))))
                           (Number (t_id team)))))"
proof -
  let ?h = "handle sch s sess (POST_teams (Parsed b))"
  have h: "?h = (fst (post_teams s uid b), sess, snd (post_teams s uid b))"
    using assms by (simp add: authed_authenticated validateBody_def)
  have forb: "?h = (s, sess, respond 403 (message ''Only admin users can create teams''))"
    if "getUser s (Number uid) = Some u" "u_role u \<noteq> Some ''admin''" for u
    unfolding h using that by (simp add: post_teams_def)
  have ok: "\<exists>team. bodyOf ?h = teamJson team \<and> statusOf ?h = 201
             \<and> getTeam s (Number (t_id team)) = None
             \<and> getTeam (storeOf ?h) (Number (t_id team)) = Some team
             \<and> t_createdBy team = uid
             \<and> \<lparr>tm_teamId = t_id team, tm_userId = uid, tm_role = ''admin''\<rparr>
                  \<in> set (getTeamMembers (storeOf ?h) (Number (t_id team)))"
    if "getUser s (Number uid) = Some u" "u_role u = Some ''admin''" for u
  proof -
    from post_teams_admin [OF that, of b] obtain team where
      pt: "post_teams s uid b
           = (s\<lparr>teams := teams s @ [team],
                 teamMembers := teamMembers s @ [\<lparr>tm_teamId = t_id team, tm_userId = uid,
                                                   tm_role = ''admin''\<rparr>]\<rparr>,
              respond 201 (teamJson team))"
      and tid: "t_id team = nextId (map t_id (teams s))" and cb: "t_createdBy team = uid"
      by blast
    have "getTeam s (Number (t_id team)) = None"
      using lookupId_fresh [of t_id "teams s"] by (simp add: getTeam_def tid)
    moreover have "getTeam (storeOf ?h) (Number (t_id team)) = Some team"
      unfolding h using lookupId_created [of t_id team "teams s"] tid
      by (simp add: pt storeOf_def getTeam_def)
    moreover have "\<lparr>tm_teamId = t_id team, tm_userId = uid, tm_role = ''admin''\<rparr>
                  \<in> set (getTeamMembers (storeOf ?h) (Number (t_id team)))"
      unfolding h by (simp add: pt storeOf_def getTeamMembers_def)
    moreover have "bodyOf ?h = teamJson team" "statusOf ?h = 201"
      unfolding h by (simp_all add: pt bodyOf_def statusOf_def respond_def)
    ultimately show ?thesis using cb by blast
  qed
  have only: "\<exists>u. getUser s (Number uid) = Some u \<and> u_role u = Some ''admin''"
    if "statusOf ?h = 201"
    using that unfolding h
    by (auto simp: post_teams_def statusOf_def respond_def createTeam_def addTeamMember_def
          Let_def split: option.splits if_splits)
  show ?thesis
  proof (intro conjI iffI allI impI)
    assume "statusOf ?h = 201"
    then show "\<exists>u. getUser s (Number uid) = Some u \<and> u_role u = Some ''admin''" by (rule only)
  next
    assume "\<exists>u. getUser s (Number uid) = Some u \<and> u_role u = Some ''admin''"
    then show "statusOf ?h = 201" using ok by blast
  next
    fix u assume "getUser s (Number uid) = Some u \<and> u_role u \<noteq> Some ''admin''"
    then show "?h = (s, sess, respond 403 (message ''Only admin users can create teams''))"
      using forb by blast
  next
    assume "statusOf ?h = 201"
    then obtain u where "getUser s (Number uid) = Some u" "u_role u = Some ''admin''"
      using only by blast
    from ok [OF this]
    show "\<exists>team. bodyOf ?h = teamJson team
             \<and> getTeam s (Number (t_id team)) = None
             \<and> getTeam (storeOf ?h) (Number (t_id team)) = Some team
             \<and> t_createdBy team = uid
             \<and> \<lparr>tm_teamId = t_id team, tm_userId = uid, tm_role = ''admin''\<rparr>
                  \<in> set (getTeamMembers (storeOf ?h) (Number (t_id team)))"
      by blast
  qed
qed

text \<open>Alice, a global admin, creates a team; bob, a global member, is refused.\<close>

theorem team_creation_witness:
  "authenticated (Some 1) 1 \<and> getUser exampleStore (Number 1) = Some alice
   \<and> u_role alice = Some ''admin''
   \<and> statusOf (handle noFileErrors exampleStore (Some 1) (POST_teams (Parsed newTeam))) = 201
   \<and> (\<exists>team. bodyOf (handle noFileErrors exampleStore (Some 1) (POST_teams (Parsed newTeam)))
                = teamJson team
         \<and> t_createdBy team = 1
         \<and> \<lparr>tm_teamId = t_id team, tm_userId = 1, tm_role = ''admin''\<rparr>
              \<in> set (getTeamMembers
                       (storeOf (handle noFileErrors exampleStore (Some 1) (POST_teams (Parsed newTeam))))
                       (Number (t_id team))))
   \<and> authenticated (Some 2) 2 \<and> getUser exampleStore (Number 2) = Some bob
   \<and> u_role bob = Some ''member''
   \<and> handle noFileErrors exampleStore (Some 2) (POST_teams (Parsed newTeam))
        = (exampleStore, Some 2, respond 403 (message ''Only admin users can create teams''))"
proof -
  have u: "getUser exampleStore (Number 1) = Some alice" "u_role alice = Some ''admin''"
    "getUser exampleStore (Number 2) = Some bob" "u_role bob = Some ''member''"
    by (simp_all add: store_eval alice_def bob_def)
  note a = team_creation [OF auth_eval(1), of noFileErrors exampleStore newTeam]
  note b = team_creation [OF auth_eval(2), of noFileErrors exampleStore newTeam]
  from a u(1,2) have s: "statusOf (handle noFileErrors exampleStore (Some 1) (POST_teams (Parsed newTeam))) = 201"
    by blast
  with a have "\<exists>team. bodyOf (handle noFileErrors exampleStore (Some 1) (POST_teams (Parsed newTeam)))
                = teamJson team
         \<and> t_createdBy team = 1
         \<and> \<lparr>tm_teamId = t_id team, tm_userId = 1, tm_role = ''admin''\<rparr>
              \<in> set (getTeamMembers
                       (storeOf (handle noFileErrors exampleStore (Some 1) (POST_teams (Parsed newTeam))))
                       (Number (t_id team)))"
    by blast
  moreover from b u(3,4) have "handle noFileErrors exampleStore (Some 2) (POST_teams (Parsed newTeam))
        = (exampleStore, Some 2, respond 403 (message ''Only admin users can create teams''))"
    by auto
  ultimately show ?thesis using s u auth_eval by blast
qed

subsection \<open>Authorship\<close>

lemma post_comment_eq:
  "authenticated sess uid \<Longrightarrow>
     handle sch s sess (POST_tasks_taskId_comments n (Parsed cb))
       = (fst (post_tasks_taskId_comments s uid n cb), sess,
          snd (post_tasks_taskId_comments s uid n cb))"
  by (simp add: authed_authenticated validateBody_def)

lemma post_message_eq:
  "authenticated sess uid \<Longrightarrow>
     handle sch s sess (POST_teams_teamId_messages n (Parsed mb))
       = (fst (post_teams_teamId_messages s uid n mb), sess,
          snd (post_teams_teamId_messages s uid n mb))"
  by (simp add: authed_authenticated validateBody_def)

lemma post_file_eq:
  "authenticated sess uid \<Longrightarrow>
     handle sch s sess (POST_files fb)
       = (fst (post_files sch s uid fb), sess, snd (post_files sch s uid fb))"
  by (simp add: authed_authenticated)

text \<open>
  Claim C6. Whenever the creation of a comment, of a message or of a file is answered 201,
  the store holds exactly one new record of that kind and its author field (\<open>userId\<close>,
  \<open>uploadedBy\<close>) is the session's user id, for every body: the \<open>userId\<close> or
  \<open>uploadedBy\<close> that the client sent is overwritten.
\<close>

theorem author_from_session:
  assumes "authenticated sess uid"
  shows
   "(statusOf (handle sch s sess (POST_tasks_taskId_comments n (Parsed cb))) = 201 \<longrightarrow>
       (\<exists>c. comments (storeOf (handle sch s sess (POST_tasks_taskId_comments n (Parsed cb))))
               = comments s @ [c]
           \<and> c_userId c = uid \<and> c_content c = ic_content cb))
    \<and> (statusOf (handle sch s sess (POST_teams_teamId_messages n (Parsed mb))) = 201 \<longrightarrow>
       (\<exists>m. messages (storeOf (handle sch s sess (POST_teams_teamId_messages n (Parsed mb))))
               = messages s @ [m]
           \<and> m_userId m = uid \<and> m_content m = mb_content mb))
    \<and> (statusOf (handle sch s sess (POST_files fb)) = 201 \<longrightarrow>
       (\<exists>f. files (storeOf (handle sch s sess (POST_files fb))) = files s @ [f]
           \<and> f_uploadedBy f = uid \<and> f_name f = if_name fb))"
proof (intro conjI impI)
  assume "statusOf (handle sch s sess (POST_tasks_taskId_comments n (Parsed cb))) = 201"
  then show "\<exists>c. comments (storeOf (handle sch s sess (POST_tasks_taskId_comments n (Parsed cb))))
               = comments s @ [c]
           \<and> c_userId c = uid \<and> c_content c = ic_content cb"
    unfolding post_comment_eq [OF assms]
    by (auto simp: post_tasks_taskId_comments_def statusOf_def storeOf_def respond_def
          createComment_def Let_def split: option.splits if_splits)
next
  assume "statusOf (handle sch s sess (POST_teams_teamId_messages n (Parsed mb))) = 201"
  then show "\<exists>m. messages (storeOf (handle sch s sess (POST_teams_teamId_messages n (Parsed mb))))
               = messages s @ [m]
           \<and> m_userId m = uid \<and> m_content m = mb_content mb"
    unfolding post_message_eq [OF assms]
    by (auto simp: post_teams_teamId_messages_def statusOf_def storeOf_def respond_def
          createMessage_def Let_def split: option.splits if_splits)
next
  assume "statusOf (handle sch s sess (POST_files fb)) = 201"
  then show "\<exists>f. files (storeOf (handle sch s sess (POST_files fb))) = files s @ [f]
           \<and> f_uploadedBy f = uid \<and> f_name f = if_name fb"
    unfolding post_file_eq [OF assms]
    by (auto simp: post_files_def statusOf_def storeOf_def respond_def
          createFile_def Let_def split: option.splits if_splits)
qed

text \<open>
  Bob sends a comment and a file that name alice as author; both are stored under bob's id.
\<close>

theorem author_from_session_witness:
  "authenticated (Some 2) 2
   \<and> ic_userId forgedComment = 1 \<and> if_uploadedBy forgedFile = 1
   \<and> statusOf (handle noFileErrors exampleStore (Some 2)
        (POST_tasks_taskId_comments (Number 1) (Parsed forgedComment))) = 201
   \<and> (\<exists>c. comments (storeOf (handle noFileErrors exampleStore (Some 2)
                 (POST_tasks_taskId_comments (Number 1) (Parsed forgedComment))))
             = comments exampleStore @ [c] \<and> c_userId c = 2)
   \<and> statusOf (handle noFileErrors exampleStore (Some 2)
        (POST_teams_teamId_messages (Number 1) (Parsed \<lparr>mb_content = ''hi''\<rparr>))) = 201
   \<and> (\<exists>m. messages (storeOf (handle noFileErrors exampleStore (Some 2)
                 (POST_teams_teamId_messages (Number 1) (Parsed \<lparr>mb_content = ''hi''\<rparr>))))
             = messages exampleStore @ [m] \<and> m_userId m = 2)
   \<and> statusOf (handle noFileErrors exampleStore (Some 2) (POST_files forgedFile)) = 201
   \<and> (\<exists>f. files (storeOf (handle noFileErrors exampleStore (Some 2) (POST_files forgedFile)))
             = files exampleStore @ [f] \<and> f_uploadedBy f = 2)"
proof -
  have c: "statusOf (handle noFileErrors exampleStore (Some 2)
        (POST_tasks_taskId_comments (Number 1) (Parsed forgedComment))) = 201"
    by (simp add: eval2 authed_def requireAuth_def validateBody_def post_tasks_taskId_comments_def
          createComment_def bob_def alice_def)
  have m: "statusOf (handle noFileErrors exampleStore (Some 2)
        (POST_teams_teamId_messages (Number 1) (Parsed \<lparr>mb_content = ''hi''\<rparr>))) = 201"
    by (simp add: eval2 eng_def authed_def requireAuth_def validateBody_def post_teams_teamId_messages_def
          createMessage_def bob_def alice_def)
  have f: "statusOf (handle noFileErrors exampleStore (Some 2) (POST_files forgedFile)) = 201"
    by (simp add: eval2 authed_def requireAuth_def post_files_def createFile_def forgedFile_def
          noFileErrors_def)
  have v: "ic_userId forgedComment = 1" "if_uploadedBy forgedFile = 1"
    by (simp_all add: forgedComment_def forgedFile_def)
  show ?thesis
    using author_from_session [OF auth_eval(2), of noFileErrors exampleStore "Number 1"
        forgedComment "\<lparr>mb_content = ''hi''\<rparr>" forgedFile] c m f v auth_eval(2)
    by blast
qed

subsection \<open>Deleting what is not there\<close>

lemma delete_missing_simple:
  assumes "authenticated sess uid"
  shows "getTeam s n = None \<Longrightarrow>
           handle sch s sess (DELETE_teams_id n) = (s, sess, respond 404 (message ''Team not found''))"
    and "getProject s n = None \<Longrightarrow>
           handle sch s sess (DELETE_projects_id n) = (s, sess, respond 404 (message ''Project not found''))"
    and "getTask s n = None \<Longrightarrow>
           handle sch s sess (DELETE_tasks_id n) = (s, sess, respond 404 (message ''Task not found''))"
    and "getComment s n = None \<Longrightarrow>
           handle sch s sess (DELETE_comments_id n) = (s, sess, respond 404 (message ''Comment not found''))"
    and "getFile s n = None \<Longrightarrow>
           handle sch s sess (DELETE_files_id n) = (s, sess, respond 404 (message ''File not found''))"
    and "getMessage s n = None \<Longrightarrow>
           handle sch s sess (DELETE_messages_id n) = (s, sess, respond 404 (message ''Message not found''))"
  using assms
  by (simp_all add: authed_authenticated delete_teams_id_def delete_projects_id_def
        delete_tasks_id_def delete_comments_id_def delete_files_id_def delete_messages_id_def)

lemma delete_missing_user:
  assumes "authenticated sess uid" "getUser s n = None"
  shows "handle sch s sess (DELETE_users_id n)
           = (s, sess, if notAdminUser (getUser s (Number uid))
                       then respond 403 (message ''Not authorized to delete users'')
                       else respond 404 (message ''User not found''))"
  using assms
  by (auto simp: authed_authenticated delete_users_id_def deleteUser_def notAdminUser_def
        split: option.splits)

lemma findMember_listed:
  "findMember (getTeamMembers s (Number t)) uid = Some m \<Longrightarrow>
     list_ex (\<lambda>m. tm_teamId m = t \<and> tm_userId m = uid) (teamMembers s)"
  using isMember_findMember [of "getTeamMembers s (Number t)" uid]
  by (simp add: isMember_getTeamMembers)

lemma delete_missing_member:
  assumes "authenticated sess uid"
  shows "getTeam s n = None \<Longrightarrow>
           handle sch s sess (DELETE_teams_teamId_members_userId n u)
             = (s, sess, respond 404 (message ''Team not found''))"
    and "getTeam s (Number t) = Some team \<Longrightarrow> \<not> targetIsMember s t u \<Longrightarrow>
           handle sch s sess (DELETE_teams_teamId_members_userId (Number t) u)
             = (s, sess, if teamRole s t uid = Some ''admin''
                         then respond 404 (message ''Team member not found'')
                         else respond 403 (message ''Not authorized to remove team member''))"
proof -
  show "getTeam s n = None \<Longrightarrow>
           handle sch s sess (DELETE_teams_teamId_members_userId n u)
             = (s, sess, respond 404 (message ''Team not found''))"
    using assms by (simp add: authed_authenticated delete_teams_teamId_members_userId_def)
  show "getTeam s (Number t) = Some team \<Longrightarrow> \<not> targetIsMember s t u \<Longrightarrow>
           handle sch s sess (DELETE_teams_teamId_members_userId (Number t) u)
             = (s, sess, if teamRole s t uid = Some ''admin''
                         then respond 404 (message ''Team member not found'')
                         else respond 403 (message ''Not authorized to remove team member''))"
    using assms
    by (cases u)
       (auto simp: authed_authenticated delete_teams_teamId_members_userId_def teamRole_def
          targetIsMember_def removeTeamMember_NaN isMember_getTeamMembers
          split: option.splits dest: findMember_listed)
qed

lemma NaN_lookups:
  "getUser s NaN = None" "getTeam s NaN = None" "getProject s NaN = None" "getTask s NaN = None"
  "getComment s NaN = None" "getFile s NaN = None" "getMessage s NaN = None"
  by (simp_all add: getUser_def getTeam_def getProject_def getTask_def getComment_def
        getFile_def getMessage_def)

lemma deleted_lookup:
  "getTeam s n = Some t \<Longrightarrow> getTeam (deleteTeam s (t_id t)) n = None"
  "getProject s n = Some p \<Longrightarrow> getProject (deleteProject s (p_id p)) n = None"
  "getTask s n = Some k \<Longrightarrow> getTask (deleteTask s (k_id k)) n = None"
  using lookupId_removeId [of t_id "teams s" "Number (t_id t)"]
    lookupId_removeId [of p_id "projects s" "Number (p_id p)"]
    lookupId_removeId [of k_id "tasks s" "Number (k_id k)"]
  by (auto simp: getTeam_def deleteTeam_def getProject_def deleteProject_def getTask_def
        deleteTask_def dest!: lookupId_Some)

lemma deleted_is_gone:
  assumes "authenticated sess uid"
  shows "statusOf (handle sch s sess (DELETE_users_id n)) = 200 \<Longrightarrow>
           getUser (storeOf (handle sch s sess (DELETE_users_id n))) n = None"
    and "statusOf (handle sch s sess (DELETE_teams_id n)) = 200 \<Longrightarrow>
           getTeam (storeOf (handle sch s sess (DELETE_teams_id n))) n = None"
    and "statusOf (handle sch s sess (DELETE_projects_id n)) = 200 \<Longrightarrow>
           getProject (storeOf (handle sch s sess (DELETE_projects_id n))) n = None"
    and "statusOf (handle sch s sess (DELETE_tasks_id n)) = 200 \<Longrightarrow>
           getTask (storeOf (handle sch s sess (DELETE_tasks_id n))) n = None"
    and "statusOf (handle sch s sess (DELETE_comments_id n)) = 200 \<Longrightarrow>
           getComment (storeOf (handle sch s sess (DELETE_comments_id n))) n = None"
    and "statusOf (handle sch s sess (DELETE_files_id n)) = 200 \<Longrightarrow>
           getFile (storeOf (handle sch s sess (DELETE_files_id n))) n = None"
    and "statusOf (handle sch s sess (DELETE_messages_id n)) = 200 \<Longrightarrow>
           getMessage (storeOf (handle sch s sess (DELETE_messages_id n))) n = None"
proof -
  show "statusOf (handle sch s sess (DELETE_users_id n)) = 200 \<Longrightarrow>
           getUser (storeOf (handle sch s sess (DELETE_users_id n))) n = None"
    using assms
    by (auto simp: authed_authenticated statusOf_def storeOf_def respond_def delete_users_id_def
          deleteUser_def getUser_def lookupId_removeId split: option.splits if_splits)
  show "statusOf (handle sch s sess (DELETE_teams_id n)) = 200 \<Longrightarrow>
           getTeam (storeOf (handle sch s sess (DELETE_teams_id n))) n = None"
    using assms
    by (auto simp: authed_authenticated statusOf_def storeOf_def respond_def delete_teams_id_def
          deleted_lookup Let_def split: option.splits if_splits)
  show "statusOf (handle sch s sess (DELETE_projects_id n)) = 200 \<Longrightarrow>
           getProject (storeOf (handle sch s sess (DELETE_projects_id n))) n = None"
    using assms
    by (auto simp: authed_authenticated statusOf_def storeOf_def respond_def delete_projects_id_def
          deleted_lookup Let_def split: option.splits if_splits)
  show "statusOf (handle sch s sess (DELETE_tasks_id n)) = 200 \<Longrightarrow>
           getTask (storeOf (handle sch s sess (DELETE_tasks_id n))) n = None"
    using assms
    by (auto simp: authed_authenticated statusOf_def storeOf_def respond_def delete_tasks_id_def
          deleted_lookup Let_def split: option.splits if_splits)
  show "statusOf (handle sch s sess (DELETE_comments_id n)) = 200 \<Longrightarrow>
           getComment (storeOf (handle sch s sess (DELETE_comments_id n))) n = None"
    using assms
    by (auto simp: authed_authenticated statusOf_def storeOf_def respond_def delete_comments_id_def
          deleteComment_def getComment_def lookupId_removeId Let_def
          split: option.splits if_splits)
  show "statusOf (handle sch s sess (DELETE_files_id n)) = 200 \<Longrightarrow>
           getFile (storeOf (handle sch s sess (DELETE_files_id n))) n = None"
    using assms
    by (auto simp: authed_authenticated statusOf_def storeOf_def respond_def delete_files_id_def
          deleteFile_def getFile_def lookupId_removeId Let_def
          split: option.splits if_splits)
  show "statusOf (handle sch s sess (DELETE_messages_id n)) = 200 \<Longrightarrow>
           getMessage (storeOf (handle sch s sess (DELETE_messages_id n))) n = None"
    using assms
    by (auto simp: authed_authenticated statusOf_def storeOf_def respond_def delete_messages_id_def
          deleteMessage_def getMessage_def lookupId_removeId Let_def
          split: option.splits if_splits)
qed

text \<open>
  Claim C9, amended. For an authenticated actor, when the id of a delete request resolves to
  no resource, the store is left as it is and the answer is never 500. It is 404 naming the
  resource for teams, projects, tasks, comments, files and messages. For users the role check
  comes first: 404 for a global admin, 403 for every other actor. For the removal of a
  membership: 404 when the team is missing; when the team exists and the target user is not
  a member of it, 404 for a team admin and 403 for every other actor. \<open>NaN\<close> resolves
  to no resource of any kind, and after a delete answered 200 the same id resolves to
  nothing, so these cases are instances.
\<close>

theorem delete_missing_target:
  assumes "authenticated sess uid"
  shows
   "(getTeam s n = None \<longrightarrow>
       handle sch s sess (DELETE_teams_id n) = (s, sess, respond 404 (message ''Team not found'')))
    \<and> (getProject s n = None \<longrightarrow>
       handle sch s sess (DELETE_projects_id n) = (s, sess, respond 404 (message ''Project not found'')))
    \<and> (getTask s n = None \<longrightarrow>
       handle sch s sess (DELETE_tasks_id n) = (s, sess, respond 404 (message ''Task not found'')))
    \<and> (getComment s n = None \<longrightarrow>
       handle sch s sess (DELETE_comments_id n) = (s, sess, respond 404 (message ''Comment not found'')))
    \<and> (getFile s n = None \<longrightarrow>
       handle sch s sess (DELETE_files_id n) = (s, sess, respond 404 (message ''File not found'')))
    \<and> (getMessage s n = None \<longrightarrow>
       handle sch s sess (DELETE_messages_id n) = (s, sess, respond 404 (message ''Message not found'')))
    \<and> (getUser s n = None \<longrightarrow>
       handle sch s sess (DELETE_users_id n)
         = (s, sess, if notAdminUser (getUser s (Number uid))
                     then respond 403 (message ''Not authorized to delete users'')
                     else respond 404 (message ''User not found'')))
    \<and> (getTeam s n = None \<longrightarrow>
       handle sch s sess (DELETE_teams_teamId_members_userId n u)
         = (s, sess, respond 404 (message ''Team not found'')))
    \<and> (\<forall>team. getTeam s (Number t) = Some team \<and> \<not> targetIsMember s t u \<longrightarrow>
       handle sch s sess (DELETE_teams_teamId_members_userId (Number t) u)
         = (s, sess, if teamRole s t uid = Some ''admin''
                     then respond 404 (message ''Team member not found'')
                     else respond 403 (message ''Not authorized to remove team member'')))
    \<and> getUser s NaN = None \<and> getTeam s NaN = None \<and> getProject s NaN = None
    \<and> getTask s NaN = None \<and> getComment s NaN = None \<and> getFile s NaN = None
    \<and> getMessage s NaN = None
    \<and> (statusOf (handle sch s sess (DELETE_users_id n)) = 200 \<longrightarrow>
          getUser (storeOf (handle sch s sess (DELETE_users_id n))) n = None)
    \<and> (statusOf (handle sch s sess (DELETE_teams_id n)) = 200 \<longrightarrow>
          getTeam (storeOf (handle sch s sess (DELETE_teams_id n))) n = None)
    \<and> (statusOf (handle sch s sess (DELETE_projects_id n)) = 200 \<longrightarrow>
          getProject (storeOf (handle sch s sess (DELETE_projects_id n))) n = None)
    \<and> (statusOf (handle sch s sess (DELETE_tasks_id n)) = 200 \<longrightarrow>
          getTask (storeOf (handle sch s sess (DELETE_tasks_id n))) n = None)
    \<and> (statusOf (handle sch s sess (DELETE_comments_id n)) = 200 \<longrightarrow>
          getComment (storeOf (handle sch s sess (DELETE_comments_id n))) n = None)
    \<and> (statusOf (handle sch s sess (DELETE_files_id n)) = 200 \<longrightarrow>
          getFile (storeOf (handle sch s sess (DELETE_files_id n))) n = None)
    \<and> (statusOf (handle sch s sess (DELETE_messages_id n)) = 200 \<longrightarrow>
          getMessage (storeOf (handle sch s sess (DELETE_messages_id n))) n = None)"
proof -
  note a = delete_missing_simple [OF assms]
  note b = delete_missing_user [OF assms]
  note c = delete_missing_member [OF assms]
  note d = deleted_is_gone [OF assms]
  have c2: "\<forall>team. getTeam s (Number t) = Some team \<and> \<not> targetIsMember s t u \<longrightarrow>
       handle sch s sess (DELETE_teams_teamId_members_userId (Number t) u)
         = (s, sess, if teamRole s t uid = Some ''admin''
                     then respond 404 (message ''Team member not found'')
                     else respond 403 (message ''Not authorized to remove team member''))"
    using c(2) by blast
  show ?thesis
    by (intro conjI impI)
       (rule a(1) a(2) a(3) a(4) a(5) a(6) b c(1) c2 NaN_lookups d; assumption?)+
qed

text \<open>
  On the sample store: alice deletes with \<open>NaN\<close>, deletes comment 1 twice, deletes a
  user that does not exist, and removes carol, who is no member, from Eng; bob tries the
  same removal.
\<close>

theorem delete_missing_target_witness:
  "authenticated (Some 1) 1
   \<and> handle noFileErrors exampleStore (Some 1) (DELETE_comments_id NaN)
        = (exampleStore, Some 1, respond 404 (message ''Comment not found''))
   \<and> statusOf (handle noFileErrors exampleStore (Some 1) (DELETE_comments_id (Number 1))) = 200
   \<and> handle noFileErrors afterDelete (Some 1) (DELETE_comments_id (Number 1))
        = (afterDelete, Some 1, respond 404 (message ''Comment not found''))
   \<and> getUser exampleStore (Number 99) = None
   \<and> handle noFileErrors exampleStore (Some 1) (DELETE_users_id (Number 99))
        = (exampleStore, Some 1, respond 404 (message ''User not found''))
   \<and> getTeam exampleStore (Number 1) = Some eng \<and> \<not> targetIsMember exampleStore 1 (Number 3)
   \<and> handle noFileErrors exampleStore (Some 1) (DELETE_teams_teamId_members_userId (Number 1) (Number 3))
        = (exampleStore, Some 1, respond 404 (message ''Team member not found''))
   \<and> handle noFileErrors exampleStore (Some 2) (DELETE_teams_teamId_members_userId (Number 1) (Number 3))
        = (exampleStore, Some 2, respond 403 (message ''Not authorized to remove team member''))"
proof -
  have s: "statusOf (handle noFileErrors exampleStore (Some 1) (DELETE_comments_id (Number 1))) = 200"
    by (simp add: eval2 authed_def requireAuth_def delete_comments_id_def notAdminMember_def)
  note nan = delete_missing_target [OF auth_eval(1), of exampleStore NaN noFileErrors]
  note one = delete_missing_target [OF auth_eval(1), of exampleStore "Number 1" noFileErrors]
  note again = delete_missing_target [OF auth_eval(1), of afterDelete "Number 1" noFileErrors]
  note usr = delete_missing_target [OF auth_eval(1), of exampleStore "Number 99" noFileErrors]
  note mem1 = delete_missing_target [OF auth_eval(1), of exampleStore _ noFileErrors "Number 3" 1]
  note mem2 = delete_missing_target [OF auth_eval(2), of exampleStore _ noFileErrors "Number 3" 1]
  have g: "getComment afterDelete (Number 1) = None"
    unfolding afterDelete_def using one [THEN conjunct2, THEN conjunct2, THEN conjunct2, THEN conjunct2, THEN conjunct2, THEN conjunct2, THEN conjunct2, THEN conjunct2, THEN conjunct2, THEN conjunct2, THEN conjunct2, THEN conjunct2, THEN conjunct2, THEN conjunct2, THEN conjunct2, THEN conjunct2, THEN conjunct2, THEN conjunct2, THEN conjunct2, THEN conjunct2, THEN conjunct1] s by (rule mp)
  have u: "getUser exampleStore (Number 99) = None" by (simp add: store_eval)
  have t: "getTeam exampleStore (Number 1) = Some eng" "\<not> targetIsMember exampleStore 1 (Number 3)"
    by (simp_all add: store_eval targetIsMember_def)
  have r: "teamRole exampleStore 1 1 = Some ''admin''" "teamRole exampleStore 1 2 \<noteq> Some ''admin''"
    "\<not> notAdminUser (getUser exampleStore (Number 1))"
    by (simp_all add: store_eval notAdminUser_def)
  have 1: "handle noFileErrors exampleStore (Some 1) (DELETE_comments_id NaN)
        = (exampleStore, Some 1, respond 404 (message ''Comment not found''))"
    using nan [THEN conjunct2, THEN conjunct2, THEN conjunct2, THEN conjunct1] nan [THEN conjunct2, THEN conjunct2, THEN conjunct2, THEN conjunct2, THEN conjunct2, THEN conjunct2, THEN conjunct2, THEN conjunct2, THEN conjunct2, THEN conjunct2, THEN conjunct2, THEN conjunct2, THEN conjunct2, THEN conjunct1] by (rule mp)
  have 2: "handle noFileErrors afterDelete (Some 1) (DELETE_comments_id (Number 1))
        = (afterDelete, Some 1, respond 404 (message ''Comment not found''))"
    using again [THEN conjunct2, THEN conjunct2, THEN conjunct2, THEN conjunct1] g by (rule mp)
  have 3: "handle noFileErrors exampleStore (Some 1) (DELETE_users_id (Number 99))
        = (exampleStore, Some 1, respond 404 (message ''User not found''))"
    using usr [THEN conjunct2, THEN conjunct2, THEN conjunct2, THEN conjunct2, THEN conjunct2, THEN conjunct2, THEN conjunct1, THEN mp, OF u] r(3) by simp
  have 4: "handle noFileErrors exampleStore (Some 1) (DELETE_teams_teamId_members_userId (Number 1) (Number 3))
        = (exampleStore, Some 1, respond 404 (message ''Team member not found''))"
    using mem1 [THEN conjunct2, THEN conjunct2, THEN conjunct2, THEN conjunct2, THEN conjunct2, THEN conjunct2, THEN conjunct2, THEN conjunct2, THEN conjunct1, THEN spec, THEN mp, OF conjI, OF t] r(1) by simp
  have 5: "handle noFileErrors exampleStore (Some 2) (DELETE_teams_teamId_members_userId (Number 1) (Number 3))
        = (exampleStore, Some 2, respond 403 (message ''Not authorized to remove team member''))"
    using mem2 [THEN conjunct2, THEN conjunct2, THEN conjunct2, THEN conjunct2, THEN conjunct2, THEN conjunct2, THEN conjunct2, THEN conjunct2, THEN conjunct1, THEN spec, THEN mp, OF conjI, OF t] r(2) by simp
  from 1 2 3 4 5 s u t auth_eval(1) show ?thesis by (intro conjI)
qed

text \<open>
  Claim C9 as stated fails for \<open>DELETE /api/users/:id\<close>: bob, who is no global admin,
  deletes a user id that resolves to nothing and is answered 403, not 404.
\<close>

theorem member_deleting_missing_user_forbidden:
  "authenticated (Some 2) 2
   \<and> getUser exampleStore (Number 99) = None
   \<and> handle noFileErrors exampleStore (Some 2) (DELETE_users_id (Number 99))
        = (exampleStore, Some 2, respond 403 (message ''Not authorized to delete users''))"
  by (simp add: eval2 authed_def requireAuth_def delete_users_id_def notAdminUser_def)

subsection \<open>Resolving the ownership chain\<close>

lemmas chain_defs = teamChain_def projectChain_def taskChain_def

lemma first_missing_link:
  assumes "missingLink s uid req = Some L" "authenticated sess uid"
  shows "handle sch s sess req = (s, sess, respond 404 (message (L @ '' not found'')))"
  using assms
proof (cases req)
  case (GET_projects q)
  with assms show ?thesis
    by (cases q) (auto simp: authed_authenticated chain_defs ifTruthy_def get_projects_def
        split: option.splits if_splits)
next
  case (GET_tasks p a)
  with assms show ?thesis
    by (cases p) (auto simp: authed_authenticated chain_defs ifTruthy_def get_tasks_def
        split: option.splits if_splits)
next
  case (DELETE_comments_id i)
  with assms show ?thesis
    by (auto simp: authed_authenticated chain_defs delete_comments_id_def
        split: option.splits if_splits)
next
  case (DELETE_files_id i)
  with assms show ?thesis
    by (auto simp: authed_authenticated chain_defs delete_files_id_def
        split: option.splits if_splits)
next
  case (DELETE_messages_id i)
  with assms show ?thesis
    by (auto simp: authed_authenticated chain_defs delete_messages_id_def
        split: option.splits if_splits)
qed (auto simp: authed_authenticated validateBody_def chain_defs
        get_teams_id_def put_teams_id_def delete_teams_id_def get_teams_id_members_def
        get_teams_id_members_current_def post_teams_id_members_def
        delete_teams_teamId_members_userId_def post_projects_def get_projects_id_def
        put_projects_id_def delete_projects_id_def post_tasks_def get_tasks_id_def
        put_tasks_id_def put_tasks_id_status_def delete_tasks_id_def
        get_tasks_taskId_comments_def post_tasks_taskId_comments_def
        get_projects_projectId_files_def get_tasks_taskId_files_def post_files_def
        get_teams_teamId_messages_def post_teams_teamId_messages_def
        split: option.splits parsed.splits if_splits)

text \<open>
  Claim C5, amended. For an authenticated actor and every route, the links of its ownership
  chain are looked up leaf first, before the membership test: when a link is missing, the
  request ends with 404 naming the first missing link's type and the store is unchanged, and
  403 is answered only when every link looked up exists. The links are those of
  \<open>missingLink\<close>: the Team record that ends a Task or Project chain is not looked up,
  the author of a comment or message deletes it before any further link is looked up, and
  the membership entry named by a member removal is looked up only after authority is
  decided.
\<close>

theorem chain_resolution:
  assumes "authenticated sess uid"
  shows
   "(\<forall>L. missingLink s uid req = Some L \<longrightarrow>
        handle sch s sess req = (s, sess, respond 404 (message (L @ '' not found''))))
    \<and> (statusOf (handle sch s sess req) = 403 \<longrightarrow> missingLink s uid req = None)"
proof (intro conjI allI impI)
  fix L assume "missingLink s uid req = Some L"
  then show "handle sch s sess req = (s, sess, respond 404 (message (L @ '' not found'')))"
    using assms by (rule first_missing_link)
next
  assume f: "statusOf (handle sch s sess req) = 403"
  show "missingLink s uid req = None"
  proof (cases "missingLink s uid req")
    case None
    then show ?thesis .
  next
    case (Some L)
    from first_missing_link [OF this assms, of sch] f show ?thesis
      by (simp add: statusOf_def respond_def)
  qed
qed

text \<open>
  Carol, in no team, asks for a task that does not exist and for the comments of a task
  whose project does not exist: 404 for the task, 404 for the project. With the project in
  place she is answered 403.
\<close>

theorem chain_resolution_witness:
  "authenticated (Some 3) 3
   \<and> missingLink exampleStore 3 (GET_tasks_id (Number 7)) = Some ''Task''
   \<and> handle noFileErrors exampleStore (Some 3) (GET_tasks_id (Number 7))
        = (exampleStore, Some 3, respond 404 (message ''Task not found''))
   \<and> missingLink projectlessStore 3 (GET_tasks_taskId_comments (Number 1)) = Some ''Project''
   \<and> handle noFileErrors projectlessStore (Some 3) (GET_tasks_taskId_comments (Number 1))
        = (projectlessStore, Some 3, respond 404 (message ''Project not found''))
   \<and> statusOf (handle noFileErrors exampleStore (Some 3) (GET_tasks_taskId_comments (Number 1))) = 403
   \<and> missingLink exampleStore 3 (GET_tasks_taskId_comments (Number 1)) = None"
proof -
  have m: "missingLink exampleStore 3 (GET_tasks_id (Number 7)) = Some ''Task''"
    "missingLink projectlessStore 3 (GET_tasks_taskId_comments (Number 1)) = Some ''Project''"
    by (simp_all add: chain_defs store_eval projectlessStore_def)
  have f: "statusOf (handle noFileErrors exampleStore (Some 3) (GET_tasks_taskId_comments (Number 1))) = 403"
    by (simp add: eval2 authed_def requireAuth_def get_tasks_taskId_comments_def)
  note a = chain_resolution [OF auth_eval(3), of exampleStore "GET_tasks_id (Number 7)" noFileErrors]
  note b = chain_resolution [OF auth_eval(3), of projectlessStore
      "GET_tasks_taskId_comments (Number 1)" noFileErrors]
  note c = chain_resolution [OF auth_eval(3), of exampleStore
      "GET_tasks_taskId_comments (Number 1)" noFileErrors]
  have 1: "handle noFileErrors exampleStore (Some 3) (GET_tasks_id (Number 7))
        = (exampleStore, Some 3, respond 404 (message ''Task not found''))"
    using a [THEN conjunct1, THEN spec, THEN mp, OF m(1)] by simp
  have 2: "handle noFileErrors projectlessStore (Some 3) (GET_tasks_taskId_comments (Number 1))
        = (projectlessStore, Some 3, respond 404 (message ''Project not found''))"
    using b [THEN conjunct1, THEN spec, THEN mp, OF m(2)] by simp
  have 3: "missingLink exampleStore 3 (GET_tasks_taskId_comments (Number 1)) = None"
    using c [THEN conjunct2] f by (rule mp)
  from auth_eval(3) m 1 2 f 3 show ?thesis by (intro conjI)
qed

text \<open>
  Claim C5 as stated fails. Carol deletes her comment although its task does not exist: the
  answer is 200, not 404 for the missing Task. And with Eng's team record missing, her
  request for Eng's project is answered 403, not 404 for the missing Team.
\<close>

theorem author_deletes_comment_of_missing_task:
  "authenticated (Some 3) 3
   \<and> getComment exampleStore (Number 2)
       = Some \<lparr>c_id = 2, c_taskId = 7, c_userId = 3, c_content = ''orphan''\<rparr>
   \<and> getTask exampleStore (Number 7) = None
   \<and> statusOf (handle noFileErrors exampleStore (Some 3) (DELETE_comments_id (Number 2))) = 200
   \<and> getProject teamlessStore (Number 1)
       = Some \<lparr>p_id = 1, p_teamId = 1, p_name = ''Site'', p_description = None,
               p_startDate = None, p_dueDate = None\<rparr>
   \<and> getTeam teamlessStore (Number 1) = None
   \<and> statusOf (handle noFileErrors teamlessStore (Some 3) (GET_projects_id (Number 1))) = 403"
  by (simp add: eval2 teamlessStore_def authed_def requireAuth_def delete_comments_id_def
        get_projects_id_def)

subsection \<open>Passwords in responses\<close>

lemma discloses_respond:
  "discloses (respond st b) \<longleftrightarrow> 200 \<le> st \<and> st < 300 \<and> hasKey ''password'' b"
  by (simp add: discloses_def success_def respond_def)

lemma hasKey_optStr: "\<not> hasKey k (optStr a)"
  by (simp add: optStr_def split: option.splits)

lemma hasKey_optNum: "\<not> hasKey k (optNum a)"
  by (simp add: optNum_def split: option.splits)

lemma hasKey_dateJson: "\<not> hasKey k (dateJson d)"
  by (cases d rule: dateJson.cases) simp_all

lemmas hasKey_leaf = hasKey_optStr hasKey_optNum hasKey_dateJson

lemma password_free:
  "\<not> hasKey ''password'' (message m)"
  "\<not> hasKey ''password'' (userWithoutPassword u)"
  "\<not> hasKey ''password'' (sanitizedUser u)"
  "\<not> hasKey ''password'' (teamJson t)"
  "\<not> hasKey ''password'' (teamMemberJson tm)"
  "\<not> hasKey ''password'' (projectJson p)"
  "\<not> hasKey ''password'' (taskJson k)"
  "\<not> hasKey ''password'' (commentJson c)"
  "\<not> hasKey ''password'' (fileJson f)"
  "\<not> hasKey ''password'' (messageJson mm)"
  by (simp_all add: message_def userWithoutPassword_def userJson_def sanitizedUser_def
        teamJson_def teamMemberJson_def projectJson_def taskJson_def commentJson_def
        fileJson_def messageJson_def hasKey_leaf)

lemma password_free_list: "(\<And>x. \<not> hasKey k (enc x)) \<Longrightarrow> \<not> hasKey k (JArr (map enc xs))"
  by (simp add: list_ex_iff)

lemma password_free_optJson: "(\<And>x. \<not> hasKey k (enc x)) \<Longrightarrow> \<not> hasKey k (optJson enc a)"
  by (simp add: optJson_def split: option.splits)

lemma password_free_with_user:
  "\<not> hasKey ''password'' (withField (commentJson c) ''user'' (userWithoutPassword u))"
  "\<not> hasKey ''password'' (withField (messageJson m) ''user'' (userWithoutPassword u))"
  using password_free(2) [of u]
  by (simp_all add: commentJson_def messageJson_def)

lemma messageWithoutPassword_free:
  "messageWithoutPassword mu = Some j \<Longrightarrow> \<not> hasKey ''password'' j"
  using password_free(2)
  by (auto simp: messageWithoutPassword_def messageJson_def split: option.splits)

lemma those_all:
  "those (map f xs) = Some ys \<Longrightarrow> (\<And>x y. f x = Some y \<Longrightarrow> P y) \<Longrightarrow> \<forall>y\<in>set ys. P y"
proof (induction xs arbitrary: ys)
  case Nil
  then show ?case by simp
next
  case (Cons x xs)
  from Cons.prems(1) obtain y zs where
    y: "f x = Some y" and zs: "those (map f xs) = Some zs" and ys: "ys = y # zs"
    by (auto split: option.splits)
  from Cons.IH [OF zs Cons.prems(2)] have "\<forall>z\<in>set zs. P z" by simp
  with Cons.prems(2) [OF y] ys show ?case by simp
qed

lemma messages_free:
  "those (map messageWithoutPassword xs) = Some ys \<Longrightarrow> \<not> hasKey ''password'' (JArr ys)"
  using those_all [of messageWithoutPassword xs ys "\<lambda>j. \<not> hasKey ''password'' j"]
    messageWithoutPassword_free
  by (auto simp: list_ex_iff)

lemmas free = password_free password_free_list password_free_optJson password_free_with_user

lemma authed_discloses:
  "(\<And>uid. \<not> discloses (snd (next uid))) \<Longrightarrow> \<not> discloses (snd (snd (authed sess s next)))"
  by (auto simp: authed_def requireAuth_def discloses_respond password_free
        split: option.splits prod.splits)
     (metis snd_conv)

lemma validateBody_discloses:
  "(\<And>v. \<not> discloses (snd (next v))) \<Longrightarrow> \<not> discloses (snd (validateBody b s next))"
  by (auto simp: validateBody_def discloses_respond split: parsed.splits)

lemma auth_routes_safe:
  "\<not> discloses (snd (snd (post_auth_login s sess lb)))"
  "\<not> discloses (snd (snd (post_auth_logout s sess err)))"
  "\<not> discloses (snd (get_auth_me s uid))"
  by (auto simp: post_auth_login_def post_auth_logout_def get_auth_me_def discloses_respond free list_ex_iff
        split: option.splits prod.splits)

lemma user_routes_safe:
  "\<not> discloses (snd (get_users s uid))"
  "\<not> discloses (snd (post_users s uid iu))"
  "\<not> discloses (snd (get_users_id s uid n))"
  "\<not> discloses (snd (put_users_id s uid n up))"
  "\<not> discloses (snd (delete_users_id s uid n))"
  by (auto simp: get_users_def post_users_def get_users_id_def put_users_id_def
        delete_users_id_def discloses_respond free Let_def list_ex_iff
        split: option.splits prod.splits)

lemma team_routes_safe:
  "\<not> discloses (snd (get_teams s uid))"
  "\<not> discloses (snd (post_teams s uid it))"
  "\<not> discloses (snd (get_teams_id s uid n))"
  "\<not> discloses (snd (put_teams_id s uid n tp))"
  "\<not> discloses (snd (delete_teams_id s uid n))"
  "\<not> discloses (snd (get_teams_id_members s uid n))"
  "\<not> discloses (snd (get_teams_id_members_current s uid n))"
  "\<not> discloses (snd (post_teams_id_members s uid n tm))"
  "\<not> discloses (snd (delete_teams_teamId_members_userId s uid n n'))"
  by (auto simp: get_teams_def post_teams_def get_teams_id_def put_teams_id_def
        delete_teams_id_def get_teams_id_members_def get_teams_id_members_current_def
        post_teams_id_members_def delete_teams_teamId_members_userId_def
        discloses_respond free Let_def list_ex_iff
        split: option.splits prod.splits)

lemma project_routes_safe:
  "\<not> discloses (snd (get_projects s uid q))"
  "\<not> discloses (snd (post_projects s uid ip))"
  "\<not> discloses (snd (get_projects_id s uid n))"
  "\<not> discloses (snd (put_projects_id s uid n pp))"
  "\<not> discloses (snd (delete_projects_id s uid n))"
  by (auto simp: get_projects_def post_projects_def get_projects_id_def put_projects_id_def
        delete_projects_id_def ifTruthy_def discloses_respond free Let_def list_ex_iff
        split: option.splits prod.splits)

lemma task_routes_safe:
  "\<not> discloses (snd (get_tasks s uid q q'))"
  "\<not> discloses (snd (post_tasks s uid ik))"
  "\<not> discloses (snd (get_tasks_id s uid n))"
  "\<not> discloses (snd (put_tasks_id s uid n kp))"
  "\<not> discloses (snd (put_tasks_id_status s uid n sb))"
  "\<not> discloses (snd (delete_tasks_id s uid n))"
  by (auto simp: get_tasks_def post_tasks_def get_tasks_id_def put_tasks_id_def
        put_tasks_id_status_def delete_tasks_id_def ifTruthy_def discloses_respond free Let_def list_ex_iff
        split: option.splits prod.splits)

lemma comment_routes_safe:
  "\<not> discloses (snd (get_tasks_taskId_comments s uid n))"
  "\<not> discloses (snd (post_tasks_taskId_comments s uid n ic))"
  "\<not> discloses (snd (delete_comments_id s uid n))"
  by (auto simp: get_tasks_taskId_comments_def post_tasks_taskId_comments_def
        delete_comments_id_def discloses_respond free Let_def list_ex_iff
        split: option.splits prod.splits)

lemma file_routes_safe:
  "\<not> discloses (snd (get_projects_projectId_files s uid n))"
  "\<not> discloses (snd (get_tasks_taskId_files s uid n))"
  "\<not> discloses (snd (post_files sch s uid fb))"
  "\<not> discloses (snd (delete_files_id s uid n))"
  by (auto simp: get_projects_projectId_files_def get_tasks_taskId_files_def post_files_def
        delete_files_id_def discloses_respond free Let_def list_ex_iff
        split: option.splits prod.splits)

lemma message_routes_safe:
  "\<not> discloses (snd (get_teams_teamId_messages s uid n))"
  "\<not> discloses (snd (post_teams_teamId_messages s uid n mb))"
  "\<not> discloses (snd (delete_messages_id s uid n))"
  by (auto simp: get_teams_teamId_messages_def post_teams_teamId_messages_def
        delete_messages_id_def discloses_respond free Let_def list_ex_iff
        split: option.splits prod.splits dest: messages_free)

lemmas routes_safe = auth_routes_safe user_routes_safe team_routes_safe project_routes_safe
  task_routes_safe comment_routes_safe file_routes_safe message_routes_safe

lemma handle_safe: "\<not> discloses (snd (snd (handle sch s sess req)))"
  by (cases req)
     (simp_all add: routes_safe authed_discloses validateBody_discloses)

text \<open>
  Claim C7. For every route, store, session and request, a success response (status 2xx)
  has no field named \<open>password\<close> in any object of its body, at any depth: neither in a
  user returned at top level (login, \<open>/api/auth/me\<close>, the user routes) nor in a user
  embedded in a message or a comment. The comments and member lists that the store returns
  are sent as they are; in the store modelled here they carry no user objects.
\<close>

theorem no_password_in_success:
  "success (snd (snd (handle sch s sess req)))
     \<Longrightarrow> \<not> hasKey ''password'' (body (snd (snd (handle sch s sess req))))"
  using handle_safe [of sch s sess req] by (simp add: discloses_def)

text \<open>
  Bob lists Eng's messages, whose stored authors carry passwords, and logs in: both answers
  are successes without a password field.
\<close>

theorem no_password_in_success_witness:
  "success (snd (snd (handle noFileErrors exampleStore (Some 2) (GET_teams_teamId_messages (Number 1)))))
   \<and> hasKey ''password'' (userJson bob)
   \<and> \<not> hasKey ''password''
         (body (snd (snd (handle noFileErrors exampleStore (Some 2)
                            (GET_teams_teamId_messages (Number 1))))))
   \<and> success (snd (snd (handle noFileErrors exampleStore None
         (POST_auth_login \<lparr>lb_username = Some ''bob'', lb_password = Some ''bob-secret''\<rparr>))))
   \<and> \<not> hasKey ''password''
         (body (snd (snd (handle noFileErrors exampleStore None
            (POST_auth_login \<lparr>lb_username = Some ''bob'', lb_password = Some ''bob-secret''\<rparr>)))))"
proof -
  have m: "success (snd (snd (handle noFileErrors exampleStore (Some 2)
                                 (GET_teams_teamId_messages (Number 1)))))"
    by (simp add: eval2 success_def authed_def requireAuth_def get_teams_teamId_messages_def
          getMessagesByTeam_def messageWithoutPassword_def)
  have l: "success (snd (snd (handle noFileErrors exampleStore None
         (POST_auth_login \<lparr>lb_username = Some ''bob'', lb_password = Some ''bob-secret''\<rparr>))))"
    by (simp add: eval2 success_def post_auth_login_def getUserByUsername_def)
  have p: "hasKey ''password'' (userJson bob)" by (simp add: userJson_def)
  from m l p no_password_in_success [OF m] no_password_in_success [OF l]
  show ?thesis by (intro conjI)
qed

end
